theory Spec2Isabelle
  imports Complex_Main "HOL-Library.AList"
begin

section \<open>Numbers, errors and DataFrames\<close>

text \<open>
  Python floats are modelled as real numbers: rounding and overflow are left out.
  What is kept is the difference between the two kinds of float in the code.
  A plain Python float raises ZeroDivisionError when divided by zero. A numpy
  float64 (every value read from a DataFrame and everything computed from one)
  does not raise: it gives inf, -inf or nan, and a comparison with nan is False.
  Values that can be non-finite have the type \<open>fl\<close>; signed zeros are not
  modelled. Where the same source line can meet either kind of float (a method
  called with its own arguments, a dataclass filled by the caller), the kind is
  an argument of the model: \<open>Float64\<close> as soon as one operand of the division is
  a numpy scalar, \<open>PlainFloat\<close> when both are plain.
\<close>

datatype py_error = KeyError | IndexError | ZeroDivisionError

datatype fl = Fin real | PInf | NInf | NaN

fun flt :: "fl \<Rightarrow> fl \<Rightarrow> bool" where
  "flt (Fin a) (Fin b) = (a < b)"
| "flt (Fin a) PInf = True"
| "flt NInf (Fin b) = True"
| "flt NInf PInf = True"
| "flt _ _ = False"

fun feq :: "fl \<Rightarrow> fl \<Rightarrow> bool" where
  "feq (Fin a) (Fin b) = (a = b)"
| "feq PInf PInf = True"
| "feq NInf NInf = True"
| "feq _ _ = False"

definition fgt :: "fl \<Rightarrow> fl \<Rightarrow> bool" where
  "fgt a b = flt b a"

definition fle :: "fl \<Rightarrow> fl \<Rightarrow> bool" where
  "fle a b = (flt a b \<or> feq a b)"

definition fge :: "fl \<Rightarrow> fl \<Rightarrow> bool" where
  "fge a b = fle b a"

definition fne :: "fl \<Rightarrow> fl \<Rightarrow> bool" where
  "fne a b = (\<not> feq a b)"

fun fneg :: "fl \<Rightarrow> fl" where
  "fneg (Fin a) = Fin (- a)"
| "fneg PInf = NInf"
| "fneg NInf = PInf"
| "fneg NaN = NaN"

fun fadd :: "fl \<Rightarrow> fl \<Rightarrow> fl" where
  "fadd (Fin a) (Fin b) = Fin (a + b)"
| "fadd NaN _ = NaN"
| "fadd _ NaN = NaN"
| "fadd PInf NInf = NaN"
| "fadd NInf PInf = NaN"
| "fadd PInf _ = PInf"
| "fadd _ PInf = PInf"
| "fadd NInf _ = NInf"
| "fadd _ NInf = NInf"

definition fsub :: "fl \<Rightarrow> fl \<Rightarrow> fl" where
  "fsub a b = fadd a (fneg b)"

definition inf_signed :: "real \<Rightarrow> fl" where
  "inf_signed s = (if 0 < s then PInf else if s < 0 then NInf else NaN)"

fun fmul :: "fl \<Rightarrow> fl \<Rightarrow> fl" where
  "fmul (Fin a) (Fin b) = Fin (a * b)"
| "fmul NaN _ = NaN"
| "fmul _ NaN = NaN"
| "fmul (Fin a) PInf = inf_signed a"
| "fmul (Fin a) NInf = inf_signed (- a)"
| "fmul PInf (Fin b) = inf_signed b"
| "fmul NInf (Fin b) = inf_signed (- b)"
| "fmul PInf PInf = PInf"
| "fmul NInf NInf = PInf"
| "fmul PInf NInf = NInf"
| "fmul NInf PInf = NInf"

text \<open>Division of numpy floats: a zero divisor gives inf or nan, never an exception.\<close>

fun np_div :: "fl \<Rightarrow> fl \<Rightarrow> fl" where
  "np_div (Fin a) (Fin b) = (if b = 0 then inf_signed a else Fin (a / b))"
| "np_div NaN _ = NaN"
| "np_div _ NaN = NaN"
| "np_div (Fin a) _ = Fin 0"
| "np_div PInf (Fin b) = (if b < 0 then NInf else PInf)"
| "np_div NInf (Fin b) = (if b < 0 then PInf else NInf)"
| "np_div _ _ = NaN"

text \<open>Division of plain Python floats: a zero divisor raises.\<close>

definition py_div :: "real \<Rightarrow> real \<Rightarrow> py_error + real" where
  "py_div a b = (if b = 0 then Inl ZeroDivisionError else Inr (a / b))"

datatype float_kind = PlainFloat | Float64

definition kind_div :: "float_kind \<Rightarrow> fl \<Rightarrow> fl \<Rightarrow> py_error + fl" where
  "kind_div k a b =
     (if k = PlainFloat \<and> b = Fin 0 then Inl ZeroDivisionError else Inr (np_div a b))"

fun fsqrt :: "fl \<Rightarrow> fl" where
  "fsqrt (Fin a) = (if 0 \<le> a then Fin (sqrt a) else NaN)"
| "fsqrt PInf = PInf"
| "fsqrt _ = NaN"

text \<open>
  Python's built-in \<open>min(a, b)\<close> keeps \<open>a\<close> unless \<open>b < a\<close>, and \<open>max(a, b)\<close>
  keeps \<open>a\<close> unless \<open>b > a\<close>; with nan the first argument therefore survives.
\<close>

definition py_min :: "fl \<Rightarrow> fl \<Rightarrow> fl" where
  "py_min a b = (if flt b a then b else a)"

definition py_max :: "fl \<Rightarrow> fl \<Rightarrow> fl" where
  "py_max a b = (if fgt b a then b else a)"

text \<open>
  A DataFrame is the list of its named columns, every cell a finite float.
  \<open>df[c].iloc[-1]\<close> raises KeyError when the column is missing and IndexError
  when the frame has no rows; \<open>df[c].iloc[-2]\<close> needs two rows.
\<close>

type_synonym dataframe = "(string \<times> real list) list"

definition has_column :: "dataframe \<Rightarrow> string \<Rightarrow> bool" where
  "has_column df c = (map_of df c \<noteq> None)"

definition iloc_last :: "dataframe \<Rightarrow> string \<Rightarrow> py_error + real" where
  "iloc_last df c =
     (case map_of df c of
        None \<Rightarrow> Inl KeyError
      | Some xs \<Rightarrow> if xs = [] then Inl IndexError else Inr (last xs))"

definition iloc_prev :: "dataframe \<Rightarrow> string \<Rightarrow> py_error + real" where
  "iloc_prev df c =
     (case map_of df c of
        None \<Rightarrow> Inl KeyError
      | Some xs \<Rightarrow> if length xs < 2 then Inl IndexError else Inr (last (butlast xs)))"

section \<open>enhanced\_risk\_manager.py\<close>

type_synonym datetime = int

text \<open>A datetime is a count of microseconds; \<open>timedelta(hours=h)\<close> is \<open>h\<close> hours of them.\<close>

definition timedelta_hours :: "int \<Rightarrow> int" where
  "timedelta_hours h = h * 3600000000"

text \<open>
  \<open>lowest_price\<close> starts at \<open>float('inf')\<close>, and the short side's trailing stop is
  computed from it, so both it and \<open>stop_loss\<close> may be non-finite.
\<close>

record position =
  symbol :: string
  side :: string
  entry_price :: real
  size :: real
  stop_loss :: fl
  take_profit :: "real list"
  entry_time :: datetime
  unrealized_pnl :: real
  realized_pnl :: real
  trailing_stop_active :: bool
  highest_price :: real
  lowest_price :: fl

definition update_pnl :: "position \<Rightarrow> real \<Rightarrow> position" where
  "update_pnl p current_price =
     (if side p = ''long'' then
        (let p1 = p\<lparr>unrealized_pnl := (current_price - entry_price p) * size p\<rparr>
         in if current_price > highest_price p1
            then p1\<lparr>highest_price := current_price\<rparr> else p1)
      else
        (let p1 = p\<lparr>unrealized_pnl := (entry_price p - current_price) * size p\<rparr>
         in if flt (Fin current_price) (lowest_price p1)
            then p1\<lparr>lowest_price := Fin current_price\<rparr> else p1))"

text \<open>
  \<open>get_pnl_pct\<close> divides by \<open>entry_price * size\<close>. main\_enhanced.py fills a
  position with float64 values (the price read from the DataFrame, the size
  from \<open>calculate_dynamic_position_size\<close>), and then a size of zero gives nan
  or inf; a position made of plain floats raises instead.
\<close>

definition get_pnl_pct :: "float_kind \<Rightarrow> position \<Rightarrow> py_error + fl" where
  "get_pnl_pct k p =
     (if entry_price p = 0 then Inr (Fin 0)
      else case kind_div k (Fin (unrealized_pnl p)) (Fin (entry_price p * size p)) of
             Inl e \<Rightarrow> Inl e
           | Inr q \<Rightarrow> Inr (fmul q (Fin 100)))"

text \<open>
  The lines the circuit breaker writes to the logger, kept as values: the reason
  of an activation exists nowhere else in the program's state.
\<close>

datatype log_event =
    BreakerActivated string datetime
  | BreakerDeactivated
  | ClosingPosition string

record risk_manager =
  initial_capital :: real
  current_capital :: real
  peak_capital :: real
  max_position_size_pct :: real
  max_daily_loss_pct :: real
  max_drawdown_pct :: real
  use_kelly_criterion :: bool
  kelly_fraction :: real
  enable_trailing_stop :: bool
  trailing_stop_pct :: real
  positions :: "(string \<times> position) list"
  closed_positions :: "position list"
  daily_start_capital :: real
  circuit_breaker_active :: bool
  circuit_breaker_until :: "datetime option"
  log_lines :: "log_event list"

definition risk_manager_init ::
  "real \<Rightarrow> real \<Rightarrow> real \<Rightarrow> real \<Rightarrow> bool \<Rightarrow> real \<Rightarrow> bool \<Rightarrow> real \<Rightarrow> risk_manager" where
  "risk_manager_init capital max_pos max_daily max_dd kelly kelly_frac trailing trailing_pct =
     \<lparr> initial_capital = capital, current_capital = capital, peak_capital = capital,
       max_position_size_pct = max_pos, max_daily_loss_pct = max_daily,
       max_drawdown_pct = max_dd, use_kelly_criterion = kelly,
       kelly_fraction = kelly_frac, enable_trailing_stop = trailing,
       trailing_stop_pct = trailing_pct, positions = [], closed_positions = [],
       daily_start_capital = capital, circuit_breaker_active = False,
       circuit_breaker_until = None, log_lines = [] \<rparr>"

text \<open>The constructor's defaults: 10, 5, 20, Kelly on at 0.25, trailing on at 1.\<close>

definition default_manager :: "real \<Rightarrow> risk_manager" where
  "default_manager capital = risk_manager_init capital 10 5 20 True 0.25 True 1"

definition calculate_fixed_position_size :: "risk_manager \<Rightarrow> real" where
  "calculate_fixed_position_size m = current_capital m * (max_position_size_pct m / 100)"

definition position_size_volatility_body ::
  "risk_manager \<Rightarrow> dataframe \<Rightarrow> real \<Rightarrow> py_error + real" where
  "position_size_volatility_body m df risk_per_trade_pct =
     (if \<not> has_column df ''atr'' then Inr (calculate_fixed_position_size m)
      else case iloc_last df ''close'' of
        Inl e \<Rightarrow> Inl e
      | Inr current_price \<Rightarrow>
         (case iloc_last df ''atr'' of
            Inl e \<Rightarrow> Inl e
          | Inr atr \<Rightarrow>
              if atr = 0 \<or> current_price = 0 then Inr (calculate_fixed_position_size m)
              else
                (let risk_amount = current_capital m * (risk_per_trade_pct / 100);
                     stop_distance = atr * 2;
                     stop_distance_pct = (stop_distance / current_price) * 100;
                     position_size_usd = risk_amount / (stop_distance_pct / 100);
                     position_size = position_size_usd / current_price;
                     max_position_usd = current_capital m * (max_position_size_pct m / 100)
                 in if position_size_usd > max_position_usd
                    then Inr (max_position_usd / current_price)
                    else Inr position_size)))"

definition calculate_position_size_volatility ::
  "risk_manager \<Rightarrow> string \<Rightarrow> dataframe \<Rightarrow> real \<Rightarrow> real" where
  "calculate_position_size_volatility m smb df risk_per_trade_pct =
     (case position_size_volatility_body m df risk_per_trade_pct of
        Inl e \<Rightarrow> calculate_fixed_position_size m
      | Inr v \<Rightarrow> v)"

text \<open>
  The Kelly formula. \<open>calculate_win_statistics\<close> hands it float64 averages
  (\<open>np.mean\<close>); a direct call may pass plain floats. The kinds differ when
  \<open>avg_win = 0\<close> makes the win/loss ratio zero: plain floats raise in the second
  division and the handler answers with half the maximum; with a float64 the
  quotient is -inf, nan or inf and the clamp goes on.
\<close>

definition kelly_body ::
  "risk_manager \<Rightarrow> float_kind \<Rightarrow> real \<Rightarrow> real \<Rightarrow> real \<Rightarrow> py_error + fl" where
  "kelly_body m k win_rate avg_win avg_loss =
     (if avg_loss = 0 \<or> win_rate = 0 then Inr (Fin (max_position_size_pct m / 2))
      else
        (let win_loss_ratio = avg_win / avg_loss
         in case kind_div k (Fin (win_loss_ratio * win_rate - (1 - win_rate)))
                            (Fin win_loss_ratio) of
              Inl e \<Rightarrow> Inl e
            | Inr q \<Rightarrow>
                (let kelly_pct = fmul q (Fin (kelly_fraction m))
                 in Inr (py_max (Fin 1)
                           (py_min (fmul kelly_pct (Fin 100)) (Fin (max_position_size_pct m)))))))"

definition calculate_kelly_position_size ::
  "risk_manager \<Rightarrow> float_kind \<Rightarrow> real \<Rightarrow> real \<Rightarrow> real \<Rightarrow> fl" where
  "calculate_kelly_position_size m k win_rate avg_win avg_loss =
     (case kelly_body m k win_rate avg_win avg_loss of
        Inl e \<Rightarrow> Fin (max_position_size_pct m / 2)
      | Inr v \<Rightarrow> v)"

definition get_daily_pnl_pct :: "risk_manager \<Rightarrow> real" where
  "get_daily_pnl_pct m =
     (if daily_start_capital m = 0 then 0
      else ((current_capital m - daily_start_capital m) / daily_start_capital m) * 100)"

definition get_current_drawdown_pct :: "risk_manager \<Rightarrow> real" where
  "get_current_drawdown_pct m =
     (if peak_capital m = 0 then 0
      else ((peak_capital m - current_capital m) / peak_capital m) * 100)"

definition mean :: "real list \<Rightarrow> real" where
  "mean xs = sum_list xs / real (length xs)"

definition calculate_win_statistics :: "risk_manager \<Rightarrow> real \<times> real \<times> real" where
  "calculate_win_statistics m =
     (if closed_positions m = [] then (0.5, 0, 0)
      else
        (let wins = map realized_pnl (filter (\<lambda>p. realized_pnl p > 0) (closed_positions m));
             losses = map (\<lambda>p. \<bar>realized_pnl p\<bar>)
                          (filter (\<lambda>p. realized_pnl p < 0) (closed_positions m));
             win_rate = real (length wins) / real (length (closed_positions m));
             avg_win = (if wins \<noteq> [] then mean wins else 0);
             avg_loss = (if losses \<noteq> [] then mean losses else 0)
         in (win_rate, avg_win, avg_loss)))"

text \<open>
  \<open>calculate_dynamic_position_size\<close>. The strength is a float64 when it comes
  from the ensemble over DataFrame values, so a negative base under \<open>** 0.5\<close>
  gives nan (a plain Python float would give a complex number, which is not
  modelled). The statistics come from \<open>calculate_win_statistics\<close>, so the Kelly
  formula runs on float64 values. In \<open>kelly_pct / self.max_position_size_pct\<close>
  a zero divisor always meets a plain float (with a maximum of zero the Kelly
  function returns the literal 1.0 or half the maximum), and raises.
\<close>

definition dynamic_position_size_body ::
  "risk_manager \<Rightarrow> string \<Rightarrow> dataframe \<Rightarrow> real \<Rightarrow> real \<Rightarrow> py_error + fl" where
  "dynamic_position_size_body m smb df signal_strength signal_confidence =
     (case iloc_last df ''close'' of
        Inl e \<Rightarrow> Inl e
      | Inr current_price \<Rightarrow>
         (let base_size = calculate_position_size_volatility m smb df 2;
              strength_multiplier = fsqrt (Fin (signal_strength / 50));
              confidence_multiplier = 0.5 + (signal_confidence * 0.5);
              current_dd = get_current_drawdown_pct m;
              dd_multiplier = (if current_dd > max_drawdown_pct m / 2 then 0.5 else 1);
              daily_pnl_pct = get_daily_pnl_pct m;
              pnl_multiplier =
                (if daily_pnl_pct < - max_daily_loss_pct m / 2 then 0.5
                 else if daily_pnl_pct > max_daily_loss_pct m then 1.2
                 else 1)
          in case (if use_kelly_criterion m \<and> length (closed_positions m) \<ge> 10
                   then (case calculate_win_statistics m of
                           (win_rate, avg_win, avg_loss) \<Rightarrow>
                             if max_position_size_pct m = 0 then Inl ZeroDivisionError
                             else Inr (np_div
                                    (calculate_kelly_position_size m Float64 win_rate avg_win avg_loss)
                                    (Fin (max_position_size_pct m))))
                   else Inr (Fin 1)) of
               Inl e \<Rightarrow> Inl e
             | Inr kelly_multiplier \<Rightarrow>
                (let final_multiplier =
                       fmul (fmul (fmul (fmul strength_multiplier (Fin confidence_multiplier))
                                        (Fin dd_multiplier))
                                  (Fin pnl_multiplier))
                            kelly_multiplier;
                     position_size = fmul (Fin base_size) final_multiplier;
                     min_size = np_div (Fin (current_capital m * 0.01)) (Fin current_price);
                     max_size = np_div (Fin (current_capital m * max_position_size_pct m / 100))
                                       (Fin current_price)
                 in Inr (py_max min_size (py_min position_size max_size)))))"

text \<open>
  The handler reads \<open>df['close'].iloc[-1]\<close> again, outside any \<open>try\<close>: when that
  read is what failed, the exception leaves the function.
\<close>

definition calculate_dynamic_position_size ::
  "risk_manager \<Rightarrow> string \<Rightarrow> dataframe \<Rightarrow> real \<Rightarrow> real \<Rightarrow> py_error + fl" where
  "calculate_dynamic_position_size m smb df signal_strength signal_confidence =
     (case dynamic_position_size_body m smb df signal_strength signal_confidence of
        Inr v \<Rightarrow> Inr v
      | Inl e \<Rightarrow>
         (case iloc_last df ''close'' of
            Inl e' \<Rightarrow> Inl e'
          | Inr price \<Rightarrow> Inr (np_div (Fin (calculate_fixed_position_size m)) (Fin price))))"

definition stop_loss_body :: "real \<Rightarrow> dataframe \<Rightarrow> string \<Rightarrow> py_error + real" where
  "stop_loss_body entry df sd =
     (case (if has_column df ''atr''
            then (case iloc_last df ''atr'' of Inl e \<Rightarrow> Inl e | Inr atr \<Rightarrow> Inr (atr * 2))
            else Inr (entry * 0.02)) of
        Inl e \<Rightarrow> Inl e
      | Inr stop_distance0 \<Rightarrow>
         (let min_stop = entry * 0.01;
              max_stop = entry * 0.05;
              stop_distance = max min_stop (min stop_distance0 max_stop)
          in if sd = ''long'' then Inr (entry - stop_distance)
             else Inr (entry + stop_distance)))"

definition calculate_stop_loss :: "real \<Rightarrow> dataframe \<Rightarrow> string \<Rightarrow> real" where
  "calculate_stop_loss entry df sd =
     (case stop_loss_body entry df sd of
        Inr v \<Rightarrow> v
      | Inl e \<Rightarrow> if sd = ''long'' then entry * 0.98 else entry * 1.02)"

text \<open>\<open>xs[:k]\<close>: a negative \<open>k\<close> drops from the end.\<close>

definition py_prefix :: "int \<Rightarrow> 'a list \<Rightarrow> 'a list" where
  "py_prefix k xs = (if 0 \<le> k then take (nat k) xs else take (nat (int (length xs) + k)) xs)"

definition calculate_take_profit_levels :: "real \<Rightarrow> real \<Rightarrow> string \<Rightarrow> int \<Rightarrow> real list" where
  "calculate_take_profit_levels entry stop sd levels =
     (let risk = \<bar>entry - stop\<bar>;
          risk_multiples = py_prefix levels [2, 3, 5]
      in map (\<lambda>multiple. if sd = ''long'' then entry + (risk * multiple)
                          else entry - (risk * multiple)) risk_multiples)"

text \<open>
  \<open>update_trailing_stop\<close> returns the outcome of the call and the manager after it.
  \<open>get_pnl_pct\<close> may raise (plain floats, a position of size zero); nothing has
  been written by then, so the manager comes back as it was. \<open>current_price\<close>
  is not read.
\<close>

definition set_position :: "risk_manager \<Rightarrow> string \<Rightarrow> position \<Rightarrow> risk_manager" where
  "set_position m smb p = m\<lparr>positions := AList.update smb p (positions m)\<rparr>"

definition update_trailing_stop ::
  "risk_manager \<Rightarrow> float_kind \<Rightarrow> string \<Rightarrow> real \<Rightarrow> (py_error + fl option) \<times> risk_manager" where
  "update_trailing_stop m k smb current_price =
     (case map_of (positions m) smb of
        None \<Rightarrow> (Inr None, m)
      | Some p \<Rightarrow>
         if \<not> enable_trailing_stop m then (Inr None, m)
         else
           (case (if \<not> trailing_stop_active p
                  then (case get_pnl_pct k p of
                          Inl e \<Rightarrow> Inl e
                        | Inr profit_pct \<Rightarrow>
                            if fge profit_pct (Fin 2) then Inr (p\<lparr>trailing_stop_active := True\<rparr>)
                            else Inr p)
                  else Inr p) of
              Inl e \<Rightarrow> (Inl e, m)
            | Inr p1 \<Rightarrow>
               if trailing_stop_active p1 then
                 (if side p1 = ''long'' then
                    (let new_stop = Fin (highest_price p1 * (1 - trailing_stop_pct m / 100))
                     in if fgt new_stop (stop_loss p1)
                        then (Inr (Some new_stop), set_position m smb (p1\<lparr>stop_loss := new_stop\<rparr>))
                        else (Inr None, set_position m smb p1))
                  else
                    (let new_stop = fmul (lowest_price p1) (Fin (1 + trailing_stop_pct m / 100))
                     in if flt new_stop (stop_loss p1)
                        then (Inr (Some new_stop), set_position m smb (p1\<lparr>stop_loss := new_stop\<rparr>))
                        else (Inr None, set_position m smb p1)))
               else (Inr None, set_position m smb p1)))"

text \<open>
  What the trailing branch of \<open>update_trailing_stop\<close> leaves as the stop: for a
  long position the high less the trailing percentage when that is above the
  current stop, for any other side the low plus the percentage when that is
  below it, and the current stop otherwise.
\<close>

definition trailed_stop :: "risk_manager \<Rightarrow> position \<Rightarrow> fl" where
  "trailed_stop m p =
     (if side p = ''long''
      then (let new_stop = Fin (highest_price p * (1 - trailing_stop_pct m / 100))
            in if fgt new_stop (stop_loss p) then new_stop else stop_loss p)
      else (let new_stop = fmul (lowest_price p) (Fin (1 + trailing_stop_pct m / 100))
            in if flt new_stop (stop_loss p) then new_stop else stop_loss p))"

text \<open>
  The circuit breaker. The clock is read once for the expiry test (\<open>now\<close>) and once
  more inside \<open>activate_circuit_breaker\<close> (\<open>now_act\<close>).
\<close>

definition activate_circuit_breaker ::
  "risk_manager \<Rightarrow> string \<Rightarrow> int \<Rightarrow> datetime \<Rightarrow> risk_manager" where
  "activate_circuit_breaker m reason hours now_act =
     m\<lparr> circuit_breaker_active := True,
        circuit_breaker_until := Some (now_act + timedelta_hours hours),
        log_lines := log_lines m @ [BreakerActivated reason (now_act + timedelta_hours hours)]
                     @ map (\<lambda>kv. ClosingPosition (fst kv)) (positions m) \<rparr>"

definition breaker_blocking :: "risk_manager \<Rightarrow> datetime \<Rightarrow> bool" where
  "breaker_blocking m now =
     (circuit_breaker_active m \<and>
      \<not> (case circuit_breaker_until m of None \<Rightarrow> False | Some u \<Rightarrow> now > u))"

definition last5_all_losses :: "risk_manager \<Rightarrow> bool" where
  "last5_all_losses m =
     list_all (\<lambda>p. realized_pnl p < 0)
              (drop (length (closed_positions m) - 5) (closed_positions m))"

definition check_circuit_breaker ::
  "risk_manager \<Rightarrow> datetime \<Rightarrow> datetime \<Rightarrow> bool \<times> risk_manager" where
  "check_circuit_breaker m now now_act =
     (if breaker_blocking m now then (True, m)
      else
        (let m1 = (if circuit_breaker_active m
                   then m\<lparr> circuit_breaker_active := False, circuit_breaker_until := None,
                           log_lines := log_lines m @ [BreakerDeactivated] \<rparr>
                   else m)
         in if get_daily_pnl_pct m1 \<le> - max_daily_loss_pct m1
            then (True, activate_circuit_breaker m1 ''Daily loss limit reached'' 24 now_act)
            else if get_current_drawdown_pct m1 \<ge> max_drawdown_pct m1
            then (True, activate_circuit_breaker m1 ''Maximum drawdown reached'' 48 now_act)
            else if length (closed_positions m1) \<ge> 5 \<and> last5_all_losses m1
            then (True, activate_circuit_breaker m1 ''5 consecutive losses'' 12 now_act)
            else (False, m1)))"

definition can_open_position ::
  "risk_manager \<Rightarrow> string \<Rightarrow> datetime \<Rightarrow> datetime \<Rightarrow> (bool \<times> string) \<times> risk_manager" where
  "can_open_position m smb now now_act =
     (case check_circuit_breaker m now now_act of
        (tripped, m1) \<Rightarrow>
          if tripped then ((False, ''Circuit breaker active''), m1)
          else if get_daily_pnl_pct m1 \<le> - max_daily_loss_pct m1
          then ((False, ''Daily loss limit reached''), m1)
          else if get_current_drawdown_pct m1 \<ge> max_drawdown_pct m1
          then ((False, ''Maximum drawdown reached''), m1)
          else if map_of (positions m1) smb \<noteq> None
          then ((False, ''Position already open for this symbol''), m1)
          else if length (positions m1) \<ge> 5
          then ((False, ''Maximum 5 positions already open''), m1)
          else ((True, ''OK''), m1))"

text \<open>
  One tick of \<open>update_position\<close> in main\_enhanced.py, without its exit checks:
  the position's \<open>update_pnl\<close> with the float64 price of the DataFrame, then
  \<open>update_trailing_stop\<close>. \<open>stop_history\<close> lists the position's stop after each
  tick of a price sequence.
\<close>

definition price_update :: "risk_manager \<Rightarrow> string \<Rightarrow> real \<Rightarrow> risk_manager" where
  "price_update m smb price =
     (case map_of (positions m) smb of
        None \<Rightarrow> m
      | Some p \<Rightarrow>
          snd (update_trailing_stop (set_position m smb (update_pnl p price)) Float64 smb price))"

fun stop_history :: "risk_manager \<Rightarrow> string \<Rightarrow> real list \<Rightarrow> fl list" where
  "stop_history m smb [] = []"
| "stop_history m smb (x # xs) =
     (case map_of (positions (price_update m smb x)) smb of
        None \<Rightarrow> []
      | Some p \<Rightarrow> stop_loss p # stop_history (price_update m smb x) smb xs)"

fun never_lower :: "fl list \<Rightarrow> bool" where
  "never_lower (a # b # xs) = ((b = a \<or> flt a b) \<and> never_lower (b # xs))"
| "never_lower _ = True"

fun never_higher :: "fl list \<Rightarrow> bool" where
  "never_higher (a # b # xs) = ((b = a \<or> flt b a) \<and> never_higher (b # xs))"
| "never_higher _ = True"

section \<open>advanced\_risk\_manager.py: the stop and target formulas\<close>

definition calculate_dynamic_stop_loss :: "real \<Rightarrow> real \<Rightarrow> real \<Rightarrow> real \<Rightarrow> real \<Rightarrow> py_error + real" where
  "calculate_dynamic_stop_loss entry atr atr_multiplier min_stop_percent max_stop_percent =
     (case py_div (atr * atr_multiplier) entry of
        Inl e \<Rightarrow> Inl e
      | Inr atr_stop_percent \<Rightarrow>
          Inr (entry * (1 - max min_stop_percent (min max_stop_percent atr_stop_percent))))"

definition calculate_dynamic_take_profit :: "real \<Rightarrow> real \<Rightarrow> real \<Rightarrow> bool \<Rightarrow> py_error + real list" where
  "calculate_dynamic_take_profit entry atr risk_reward_ratio volatility_adjusted =
     (let stop_distance = atr * 2
      in case (if volatility_adjusted
               then (case py_div atr entry of
                       Inl e \<Rightarrow> Inl e
                     | Inr atr_percent \<Rightarrow>
                         if atr_percent > 0.03 then Inr [1.5, 2.5, 4] else Inr [2, 3, 5])
               else Inr [risk_reward_ratio, risk_reward_ratio * 1.5, risk_reward_ratio * 2]) of
           Inl e \<Rightarrow> Inl e
         | Inr multipliers \<Rightarrow> Inr (map (\<lambda>mult. entry + (stop_distance * mult)) multipliers))"

section \<open>adaptive\_strategy.py\<close>

definition bind_err :: "py_error + 'a \<Rightarrow> ('a \<Rightarrow> py_error + 'b) \<Rightarrow> py_error + 'b" where
  "bind_err r f = (case r of Inl e \<Rightarrow> Inl e | Inr v \<Rightarrow> f v)"

subsection \<open>The pandas and numpy operations the engine uses\<close>

definition column :: "dataframe \<Rightarrow> string \<Rightarrow> py_error + real list" where
  "column df c = (case map_of df c of None \<Rightarrow> Inl KeyError | Some xs \<Rightarrow> Inr xs)"

text \<open>
  \<open>series.rolling(n).mean().iloc[-1]\<close>: nan while the window is not full.
\<close>

definition rolling_mean_last :: "nat \<Rightarrow> real list \<Rightarrow> py_error + fl" where
  "rolling_mean_last n xs =
     (if xs = [] then Inl IndexError
      else if length xs < n then Inr NaN
      else Inr (Fin (mean (drop (length xs - n) xs))))"

text \<open>\<open>series.pct_change()\<close>: the first entry is nan, a zero predecessor gives inf or nan.\<close>

fun pct_steps :: "real \<Rightarrow> real list \<Rightarrow> fl list" where
  "pct_steps prev [] = []"
| "pct_steps prev (x # xs) = fsub (np_div (Fin x) (Fin prev)) (Fin 1) # pct_steps x xs"

definition pct_change :: "real list \<Rightarrow> fl list" where
  "pct_change xs = (case xs of [] \<Rightarrow> [] | x # rest \<Rightarrow> NaN # pct_steps x rest)"

definition tail :: "nat \<Rightarrow> 'a list \<Rightarrow> 'a list" where
  "tail n xs = drop (length xs - n) xs"

fun fin_part :: "fl \<Rightarrow> real option" where
  "fin_part (Fin a) = Some a"
| "fin_part _ = None"

definition sum_sq_dev :: "real list \<Rightarrow> real" where
  "sum_sq_dev xs = sum_list (map (\<lambda>x. (x - mean xs)\<^sup>2) xs)"

text \<open>
  \<open>Series.std()\<close> skips nan and divides by \<open>n - 1\<close>; fewer than two values give
  nan, and so does any infinite value (inf - inf).
\<close>

definition series_std :: "fl list \<Rightarrow> fl" where
  "series_std xs =
     (let valid = filter (\<lambda>x. x \<noteq> NaN) xs
      in if length valid < 2 then NaN
         else case those (map fin_part valid) of
                None \<Rightarrow> NaN
              | Some rs \<Rightarrow> Fin (sqrt (sum_sq_dev rs / real (length rs - 1))))"

text \<open>\<open>np.std\<close> divides by \<open>n\<close> and skips nothing.\<close>

definition np_std :: "fl list \<Rightarrow> fl" where
  "np_std xs =
     (if xs = [] then NaN
      else case those (map fin_part xs) of
             None \<Rightarrow> NaN
           | Some rs \<Rightarrow> Fin (sqrt (sum_sq_dev rs / real (length rs))))"

subsection \<open>The engine\<close>

record market_regime =
  volatility :: string
  trend :: string
  volume :: string
  regime_confidence :: real

text \<open>
  The reasoning strings, kept as the message and the values it formats.
\<close>

datatype reason =
    RsiNotAvailable | RsiOversold real real | RsiOverbought real real | RsiNeutral real
  | MacdNotAvailable | MacdBullishCrossover | MacdBearishCrossover
  | MacdBullish real | MacdBearish real
  | BollingerNotAvailable | BollingerCollapsed
  | PriceNearLowerBB real | PriceNearUpperBB real
  | PriceBelowMiddleBB real | PriceAboveMiddleBB real | PriceInBBMiddle real
  | EmaNotAvailable | EmaBullishCrossover | EmaBearishCrossover
  | EmaBullish fl | EmaBearish fl
  | VolumeNotAvailable | NoVolumeData
  | HighVolumePriceUp fl | HighVolumePriceDown fl | LowVolume fl | NormalVolume fl
  | MlReason real real
  | ErrorReason py_error

record adaptive_signal =
  action :: string
  strength :: fl
  confidence :: fl
  regime :: market_regime
  components :: "(string \<times> fl) list"
  reasoning :: "reason list"

type_synonym weights = "(string \<times> real) list"

record strategy_engine =
  base_rsi_oversold :: real
  base_rsi_overbought :: real
  volatility_adjustment :: bool
  ml_enabled :: bool
  base_weights :: weights
  current_weights :: weights
  regime_history :: "market_regime list"

definition initial_base_weights :: "bool \<Rightarrow> weights" where
  "initial_base_weights ml =
     [(''rsi'', 1.0), (''macd'', 1.5), (''bollinger'', 1.2), (''ema_trend'', 1.3),
      (''volume'', 1.0), (''stochastic'', 0.8), (''atr'', 0.7),
      (''ml_prediction'', if ml then 2.0 else 0.0)]"

definition engine_init :: "real \<Rightarrow> real \<Rightarrow> bool \<Rightarrow> bool \<Rightarrow> strategy_engine" where
  "engine_init oversold overbought vol_adj ml =
     \<lparr> base_rsi_oversold = oversold, base_rsi_overbought = overbought,
       volatility_adjustment = vol_adj, ml_enabled = ml,
       base_weights = initial_base_weights ml, current_weights = initial_base_weights ml,
       regime_history = [] \<rparr>"

definition default_engine :: strategy_engine where
  "default_engine = engine_init 30 70 True True"

definition bucket :: "fl \<Rightarrow> real \<Rightarrow> real \<Rightarrow> string \<Rightarrow> string \<Rightarrow> string \<Rightarrow> string" where
  "bucket x hi lo name_hi name_lo name_mid =
     (if fgt x (Fin hi) then name_hi else if flt x (Fin lo) then name_lo else name_mid)"

definition detect_volatility :: "dataframe \<Rightarrow> py_error + string" where
  "detect_volatility df =
     (if has_column df ''atr'' then
        bind_err (iloc_last df ''atr'') (\<lambda>atr.
        bind_err (bind_err (column df ''atr'') (rolling_mean_last 20)) (\<lambda>avg_atr.
          let volatility_ratio = (if fgt avg_atr (Fin 0) then np_div (Fin atr) avg_atr else Fin 1)
          in Inr (bucket volatility_ratio 1.5 0.7 ''high'' ''low'' ''medium'')))
      else
        bind_err (column df ''close'') (\<lambda>closes.
          let returns_std = series_std (tail 20 (pct_change closes))
          in Inr (bucket returns_std 0.03 0.01 ''high'' ''low'' ''medium'')))"

definition detect_trend :: "dataframe \<Rightarrow> py_error + string" where
  "detect_trend df =
     (if has_column df ''ema_12'' \<and> has_column df ''ema_26'' then
        bind_err (iloc_last df ''ema_12'') (\<lambda>ema_fast.
        bind_err (iloc_last df ''ema_26'') (\<lambda>ema_slow.
          let ema_diff_pct = fmul (np_div (Fin (ema_fast - ema_slow)) (Fin ema_slow)) (Fin 100)
          in Inr (bucket ema_diff_pct 2 (- 2) ''bullish'' ''bearish'' ''ranging'')))
      else
        bind_err (bind_err (column df ''close'') (rolling_mean_last 20)) (\<lambda>sma_20.
        bind_err (iloc_last df ''close'') (\<lambda>current_price.
          Inr (if fgt (Fin current_price) (fmul sma_20 (Fin 1.02)) then ''bullish''
               else if flt (Fin current_price) (fmul sma_20 (Fin 0.98)) then ''bearish''
               else ''ranging''))))"

definition detect_volume :: "dataframe \<Rightarrow> py_error + string" where
  "detect_volume df =
     (if has_column df ''volume'' then
        bind_err (iloc_last df ''volume'') (\<lambda>current_volume.
        bind_err (bind_err (column df ''volume'') (rolling_mean_last 20)) (\<lambda>avg_volume.
          let volume_ratio = (if fgt avg_volume (Fin 0) then np_div (Fin current_volume) avg_volume
                              else Fin 1)
          in Inr (bucket volume_ratio 1.5 0.7 ''high'' ''low'' ''normal'')))
      else Inr ''normal'')"

definition available_indicators :: "dataframe \<Rightarrow> nat" where
  "available_indicators df =
     length (filter (has_column df) [''atr'', ''ema_12'', ''volume'', ''rsi''])"

definition regime_body :: "dataframe \<Rightarrow> py_error + market_regime" where
  "regime_body df =
     bind_err (detect_volatility df) (\<lambda>vol.
     bind_err (detect_trend df) (\<lambda>tr.
     bind_err (detect_volume df) (\<lambda>vlm.
       Inr \<lparr> volatility = vol, trend = tr, volume = vlm,
             regime_confidence = real (available_indicators df) / 4 \<rparr>)))"

definition remember_regime :: "strategy_engine \<Rightarrow> market_regime \<Rightarrow> strategy_engine" where
  "remember_regime e r =
     (let h = regime_history e @ [r]
      in e\<lparr>regime_history := (if length h > 100 then drop (length h - 100) h else h)\<rparr>)"

definition detect_market_regime ::
  "strategy_engine \<Rightarrow> dataframe \<Rightarrow> market_regime \<times> strategy_engine" where
  "detect_market_regime e df =
     (case regime_body df of
        Inr r \<Rightarrow> (r, remember_regime e r)
      | Inl err \<Rightarrow> (\<lparr> volatility = ''medium'', trend = ''ranging'', volume = ''normal'',
                       regime_confidence = 0.5 \<rparr>, e))"

definition adjust_thresholds_for_volatility ::
  "strategy_engine \<Rightarrow> market_regime \<Rightarrow> real \<times> real" where
  "adjust_thresholds_for_volatility e r =
     (if \<not> volatility_adjustment e then (base_rsi_oversold e, base_rsi_overbought e)
      else if volatility r = ''high''
      then (max 20 (base_rsi_oversold e - 10), min 80 (base_rsi_overbought e + 10))
      else if volatility r = ''low''
      then (min 35 (base_rsi_oversold e + 5), max 65 (base_rsi_overbought e - 5))
      else (base_rsi_oversold e, base_rsi_overbought e))"

text \<open>
  \<open>weights[k] *= c\<close> on a copy of the base weights: KeyError when the key is
  missing. The three rule blocks of \<open>adjust_weights_for_regime\<close> follow, then the
  single normalisation; dividing by a zero total raises.
\<close>

definition scale_weight :: "string \<Rightarrow> real \<Rightarrow> weights \<Rightarrow> py_error + weights" where
  "scale_weight k c ws =
     (case map_of ws k of
        None \<Rightarrow> Inl KeyError
      | Some _ \<Rightarrow> Inr (map (\<lambda>kv. if fst kv = k then (fst kv, snd kv * c) else kv) ws))"

definition volatility_rule :: "market_regime \<Rightarrow> weights \<Rightarrow> py_error + weights" where
  "volatility_rule r ws =
     (if volatility r = ''high'' then
        bind_err (scale_weight ''macd'' 1.3 ws) (\<lambda>w1.
        bind_err (scale_weight ''rsi'' 0.8 w1) (\<lambda>w2.
        scale_weight ''bollinger'' 1.2 w2))
      else if volatility r = ''low'' then
        bind_err (scale_weight ''rsi'' 1.3 ws) (\<lambda>w1.
        bind_err (scale_weight ''bollinger'' 1.4 w1) (\<lambda>w2.
        scale_weight ''macd'' 0.8 w2))
      else Inr ws)"

definition trend_rule :: "market_regime \<Rightarrow> weights \<Rightarrow> py_error + weights" where
  "trend_rule r ws =
     (if trend r \<in> set [''bullish'', ''bearish''] then
        bind_err (scale_weight ''ema_trend'' 1.4 ws) (\<lambda>w1.
        scale_weight ''macd'' 1.2 w1)
      else if trend r = ''ranging'' then
        bind_err (scale_weight ''rsi'' 1.3 ws) (\<lambda>w1.
        scale_weight ''stochastic'' 1.2 w1)
      else Inr ws)"

definition volume_rule :: "market_regime \<Rightarrow> weights \<Rightarrow> py_error + weights" where
  "volume_rule r ws =
     (if volume r = ''high'' then
        bind_err (scale_weight ''volume'' 1.5 ws) (\<lambda>w1.
        Inr (map (\<lambda>kv. if fst kv \<noteq> ''volume'' then (fst kv, snd kv * 1.1) else kv) w1))
      else Inr ws)"

definition regime_rules :: "market_regime \<Rightarrow> weights \<Rightarrow> py_error + weights" where
  "regime_rules r ws =
     bind_err (volatility_rule r ws) (\<lambda>w1.
     bind_err (trend_rule r w1) (\<lambda>w2.
     volume_rule r w2))"

definition normalize_weights :: "weights \<Rightarrow> py_error + weights" where
  "normalize_weights ws =
     (let total_weight = sum_list (map snd ws)
      in if ws \<noteq> [] \<and> total_weight = 0 then Inl ZeroDivisionError
         else Inr (map (\<lambda>kv. (fst kv, snd kv / total_weight)) ws))"

definition adjust_weights_for_regime ::
  "strategy_engine \<Rightarrow> market_regime \<Rightarrow> py_error + strategy_engine" where
  "adjust_weights_for_regime e r =
     bind_err (regime_rules r (base_weights e)) (\<lambda>ws.
     bind_err (normalize_weights ws) (\<lambda>nws.
     Inr (e\<lparr>current_weights := nws\<rparr>)))"

subsection \<open>Component signals\<close>

definition calculate_rsi_signal :: "dataframe \<Rightarrow> real \<Rightarrow> real \<Rightarrow> py_error + fl \<times> reason" where
  "calculate_rsi_signal df oversold overbought =
     (if \<not> has_column df ''rsi'' then Inr (Fin 0, RsiNotAvailable)
      else bind_err (iloc_last df ''rsi'') (\<lambda>rsi.
        if rsi < oversold
        then Inr (np_div (Fin (oversold - rsi)) (Fin oversold), RsiOversold rsi oversold)
        else if rsi > overbought
        then Inr (np_div (Fin (- (rsi - overbought))) (Fin (100 - overbought)),
                  RsiOverbought rsi overbought)
        else
          (let mid = (oversold + overbought) / 2
           in Inr (fmul (np_div (Fin (mid - rsi)) (Fin (overbought - oversold))) (Fin 0.5),
                   RsiNeutral rsi))))"

definition calculate_macd_signal :: "dataframe \<Rightarrow> py_error + fl \<times> reason" where
  "calculate_macd_signal df =
     (if \<not> has_column df ''macd'' \<or> \<not> has_column df ''macd_signal''
      then Inr (Fin 0, MacdNotAvailable)
      else bind_err (iloc_last df ''macd'') (\<lambda>macd.
           bind_err (iloc_last df ''macd_signal'') (\<lambda>macd_signal.
           bind_err (iloc_prev df ''macd'') (\<lambda>macd_prev.
           bind_err (iloc_prev df ''macd_signal'') (\<lambda>signal_prev.
             if macd > macd_signal \<and> macd_prev \<le> signal_prev
             then Inr (Fin 0.8, MacdBullishCrossover)
             else if macd < macd_signal \<and> macd_prev \<ge> signal_prev
             then Inr (Fin (- 0.8), MacdBearishCrossover)
             else if macd > macd_signal
             then (let diff = \<bar>macd - macd_signal\<bar>
                   in Inr (Fin (min 0.6 (diff * 10)), MacdBullish diff))
             else (let diff = \<bar>macd - macd_signal\<bar>
                   in Inr (Fin (- min 0.6 (diff * 10)), MacdBearish diff)))))))"

text \<open>Only the upper and lower band are tested for; the middle band is read all the same.\<close>

definition calculate_bollinger_signal :: "dataframe \<Rightarrow> py_error + fl \<times> reason" where
  "calculate_bollinger_signal df =
     (if \<not> has_column df ''bb_upper'' \<or> \<not> has_column df ''bb_lower''
      then Inr (Fin 0, BollingerNotAvailable)
      else bind_err (iloc_last df ''close'') (\<lambda>close.
           bind_err (iloc_last df ''bb_upper'') (\<lambda>bb_upper.
           bind_err (iloc_last df ''bb_middle'') (\<lambda>bb_middle.
           bind_err (iloc_last df ''bb_lower'') (\<lambda>bb_lower.
             let bb_range = bb_upper - bb_lower
             in if bb_range = 0 then Inr (Fin 0, BollingerCollapsed)
                else
                  (let pos = (close - bb_lower) / bb_range
                   in if pos < 0.2 then Inr (Fin 0.7, PriceNearLowerBB pos)
                      else if pos > 0.8 then Inr (Fin (- 0.7), PriceNearUpperBB pos)
                      else if pos < 0.4 then Inr (Fin 0.3, PriceBelowMiddleBB pos)
                      else if pos > 0.6 then Inr (Fin (- 0.3), PriceAboveMiddleBB pos)
                      else Inr (Fin 0, PriceInBBMiddle pos)))))))"

definition calculate_ema_trend_signal :: "dataframe \<Rightarrow> py_error + fl \<times> reason" where
  "calculate_ema_trend_signal df =
     (if \<not> has_column df ''ema_12'' \<or> \<not> has_column df ''ema_26''
      then Inr (Fin 0, EmaNotAvailable)
      else bind_err (iloc_last df ''ema_12'') (\<lambda>ema_fast.
           bind_err (iloc_last df ''ema_26'') (\<lambda>ema_slow.
           bind_err (iloc_last df ''close'') (\<lambda>close.
           bind_err (iloc_prev df ''ema_12'') (\<lambda>ema_fast_prev.
           bind_err (iloc_prev df ''ema_26'') (\<lambda>ema_slow_prev.
             if ema_fast > ema_slow \<and> ema_fast_prev \<le> ema_slow_prev
             then Inr (Fin 0.9, EmaBullishCrossover)
             else if ema_fast < ema_slow \<and> ema_fast_prev \<ge> ema_slow_prev
             then Inr (Fin (- 0.9), EmaBearishCrossover)
             else if ema_fast > ema_slow
             then (let diff_pct = fmul (np_div (Fin (ema_fast - ema_slow)) (Fin ema_slow)) (Fin 100)
                   in Inr (py_min (Fin 0.7) (np_div diff_pct (Fin 5)), EmaBullish diff_pct))
             else (let diff_pct = fmul (np_div (Fin (ema_slow - ema_fast)) (Fin ema_slow)) (Fin 100)
                   in Inr (fneg (py_min (Fin 0.7) (np_div diff_pct (Fin 5))),
                           EmaBearish diff_pct))))))))"

definition last_fl :: "fl list \<Rightarrow> py_error + fl" where
  "last_fl xs = (if xs = [] then Inl IndexError else Inr (last xs))"

definition calculate_volume_signal :: "dataframe \<Rightarrow> py_error + fl \<times> reason" where
  "calculate_volume_signal df =
     (if \<not> has_column df ''volume'' then Inr (Fin 0, VolumeNotAvailable)
      else bind_err (iloc_last df ''volume'') (\<lambda>vol.
           bind_err (bind_err (column df ''volume'') (rolling_mean_last 20)) (\<lambda>avg_volume.
             if feq avg_volume (Fin 0) then Inr (Fin 0, NoVolumeData)
             else
               (let volume_ratio = np_div (Fin vol) avg_volume
                in bind_err (bind_err (column df ''close'') (\<lambda>cs. last_fl (pct_change cs)))
                     (\<lambda>price_change.
                        if fgt volume_ratio (Fin 1.5) then
                          (if fgt price_change (Fin 0)
                           then Inr (py_min (Fin 0.8) (fmul volume_ratio (Fin 0.3)),
                                     HighVolumePriceUp volume_ratio)
                           else Inr (fneg (py_min (Fin 0.8) (fmul volume_ratio (Fin 0.3))),
                                     HighVolumePriceDown volume_ratio))
                        else if flt volume_ratio (Fin 0.7)
                        then Inr (Fin 0, LowVolume volume_ratio)
                        else Inr (Fin 0, NormalVolume volume_ratio))))))"

subsection \<open>The ensemble\<close>

text \<open>
  \<open>ml_prediction\<close> is an optional dict; an empty dict is falsy like \<open>None\<close>.
\<close>

type_synonym ml_prediction = "(string \<times> real) list option"

definition dict_get :: "(string \<times> 'a) list \<Rightarrow> string \<Rightarrow> 'a \<Rightarrow> 'a" where
  "dict_get d k dflt = (case map_of d k of None \<Rightarrow> dflt | Some v \<Rightarrow> v)"

definition ml_component :: "strategy_engine \<Rightarrow> ml_prediction \<Rightarrow> fl \<times> reason list" where
  "ml_component e ml =
     (case ml of
        None \<Rightarrow> (Fin 0, [])
      | Some d \<Rightarrow>
          if ml_enabled e \<and> d \<noteq> [] then
            (let ml_signal = dict_get d ''signal'' 0;
                 ml_confidence = dict_get d ''confidence'' 0.5
             in (Fin (ml_signal * ml_confidence), [MlReason ml_signal ml_confidence]))
          else (Fin 0, []))"

text \<open>The loop over \<open>signals.items()\<close>: the running weighted sum and the running total.\<close>

fun accumulate :: "weights \<Rightarrow> (string \<times> fl) list \<Rightarrow> fl \<times> real \<Rightarrow> fl \<times> real" where
  "accumulate cw [] acc = acc"
| "accumulate cw ((component, signal) # rest) (weighted_score, total_weight) =
     (let weight = dict_get cw component 0
      in accumulate cw rest (fadd weighted_score (fmul signal (Fin weight)), total_weight + weight))"

definition weighted_ensemble_score :: "weights \<Rightarrow> (string \<times> fl) list \<Rightarrow> fl" where
  "weighted_ensemble_score cw signals =
     (case accumulate cw signals (Fin 0, 0) of
        (weighted_score, total_weight) \<Rightarrow>
          if total_weight > 0 then np_div weighted_score (Fin total_weight) else weighted_score)"

definition decide_action :: "fl \<Rightarrow> string" where
  "decide_action s =
     (if fge s (Fin 65) then ''BUY'' else if fle s (Fin 35) then ''SELL'' else ''HOLD'')"

definition signal_agreement :: "(string \<times> fl) list \<Rightarrow> fl" where
  "signal_agreement signals =
     (let signal_values = filter (\<lambda>s. fne s (Fin 0)) (map snd signals)
      in if signal_values \<noteq> []
         then py_max (Fin 0.5) (fsub (Fin 1) (np_std signal_values))
         else Fin 0.5)"

definition ensemble_body ::
  "strategy_engine \<Rightarrow> dataframe \<Rightarrow> ml_prediction \<Rightarrow> market_regime \<Rightarrow> py_error + adaptive_signal" where
  "ensemble_body e df ml r =
     (case adjust_thresholds_for_volatility e r of
        (rsi_oversold, rsi_overbought) \<Rightarrow>
          bind_err (calculate_rsi_signal df rsi_oversold rsi_overbought) (\<lambda>(rsi_signal, rsi_reason).
          bind_err (calculate_macd_signal df) (\<lambda>(macd_signal, macd_reason).
          bind_err (calculate_bollinger_signal df) (\<lambda>(bb_signal, bb_reason).
          bind_err (calculate_ema_trend_signal df) (\<lambda>(ema_signal, ema_reason).
          bind_err (calculate_volume_signal df) (\<lambda>(volume_signal, volume_reason).
            case ml_component e ml of
              (ml_signal, ml_reasons) \<Rightarrow>
                (let signals = [(''rsi'', rsi_signal), (''macd'', macd_signal),
                                (''bollinger'', bb_signal), (''ema_trend'', ema_signal),
                                (''volume'', volume_signal), (''ml_prediction'', ml_signal)];
                     reasons = [rsi_reason, macd_reason, bb_reason, ema_reason, volume_reason]
                               @ ml_reasons;
                     weighted_score = weighted_ensemble_score (current_weights e) signals;
                     strength_value = fmul (fadd weighted_score (Fin 1)) (Fin 50);
                     conf = fmul (signal_agreement signals) (Fin (regime_confidence r))
                 in Inr \<lparr> action = decide_action strength_value, strength = strength_value,
                          confidence = conf, regime = r, components = signals,
                          reasoning = reasons \<rparr>)))))))"

definition error_signal :: "py_error \<Rightarrow> adaptive_signal" where
  "error_signal err =
     \<lparr> action = ''HOLD'', strength = Fin 50, confidence = Fin 0,
       regime = \<lparr> volatility = ''medium'', trend = ''ranging'', volume = ''normal'',
                  regime_confidence = 0 \<rparr>,
       components = [], reasoning = [ErrorReason err] \<rparr>"

text \<open>
  The body of the \<open>try\<close> in \<open>generate_ensemble_signal\<close>, with the engine as the
  statements before the failure (if any) have left it, and the function itself:
  the handler turns every exception into the error signal.
\<close>

definition ensemble_attempt ::
  "strategy_engine \<Rightarrow> dataframe \<Rightarrow> ml_prediction \<Rightarrow> (py_error + adaptive_signal) \<times> strategy_engine" where
  "ensemble_attempt e df ml =
     (case detect_market_regime e df of
        (r, e1) \<Rightarrow>
          (case adjust_weights_for_regime e1 r of
             Inl err \<Rightarrow> (Inl err, e1)
           | Inr e2 \<Rightarrow> (ensemble_body e2 df ml r, e2)))"

definition generate_ensemble_signal ::
  "strategy_engine \<Rightarrow> dataframe \<Rightarrow> ml_prediction \<Rightarrow> adaptive_signal \<times> strategy_engine" where
  "generate_ensemble_signal e df ml =
     (case ensemble_attempt e df ml of
        (Inr s, e') \<Rightarrow> (s, e')
      | (Inl err, e') \<Rightarrow> (error_signal err, e'))"

text \<open>Weights a normalisation can work on: none negative, one at least positive.\<close>

definition usable_weights :: "weights \<Rightarrow> bool" where
  "usable_weights ws = (list_all (\<lambda>kv. 0 \<le> snd kv) ws \<and> list_ex (\<lambda>kv. 0 < snd kv) ws)"

text \<open>
  What \<open>__init__\<close> fixes and no method writes, and the engine after a series of
  earlier calls of \<open>generate_ensemble_signal\<close>.
\<close>

definition same_config :: "strategy_engine \<Rightarrow> strategy_engine \<Rightarrow> bool" where
  "same_config e1 e2 =
     (base_rsi_oversold e1 = base_rsi_oversold e2 \<and>
      base_rsi_overbought e1 = base_rsi_overbought e2 \<and>
      volatility_adjustment e1 = volatility_adjustment e2 \<and>
      ml_enabled e1 = ml_enabled e2 \<and>
      base_weights e1 = base_weights e2)"

fun after_calls :: "strategy_engine \<Rightarrow> (dataframe \<times> ml_prediction) list \<Rightarrow> strategy_engine" where
  "after_calls e [] = e"
| "after_calls e ((df, ml) # calls) = after_calls (snd (generate_ensemble_signal e df ml)) calls"

section \<open>Concrete values used to exercise the model\<close>

definition example_df :: dataframe where
  "example_df = [(''close'', [49000, 50000]), (''atr'', [1400, 1500])]"

definition example_position :: position where
  "example_position =
     \<lparr> symbol = ''BTC/USDT'', side = ''long'', entry_price = 100, size = 1,
       stop_loss = Fin 98, take_profit = [104, 106, 110], entry_time = 0,
       unrealized_pnl = 3, realized_pnl = 0, trailing_stop_active = False,
       highest_price = 103, lowest_price = PInf \<rparr>"

definition held_manager :: risk_manager where
  "held_manager = (default_manager 10000)\<lparr>positions := [(''BTC/USDT'', example_position)]\<rparr>"

definition full_manager :: risk_manager where
  "full_manager = (default_manager 10000)\<lparr>positions :=
     [(''BTC/USDT'', example_position), (''ETH/USDT'', example_position),
      (''SOL/USDT'', example_position), (''ADA/USDT'', example_position),
      (''XRP/USDT'', example_position)]\<rparr>"

definition losing_manager :: risk_manager where
  "losing_manager = (default_manager 10000)\<lparr>current_capital := 9500\<rparr>"

definition short_position :: position where
  "short_position = example_position\<lparr>side := ''short'', stop_loss := Fin 102, lowest_price := Fin 97\<rparr>"

definition short_manager :: risk_manager where
  "short_manager = (default_manager 10000)\<lparr>positions := [(''BTC/USDT'', short_position)]\<rparr>"

definition flat_manager :: risk_manager where
  "flat_manager = (default_manager 10000)\<lparr>positions :=
     [(''BTC/USDT'', example_position\<lparr>unrealized_pnl := 1\<rparr>)]\<rparr>"

definition rsi_df :: dataframe where
  "rsi_df = [(''close'', [100, 101]), (''rsi'', [40, 10])]"

definition strong_ml :: ml_prediction where
  "strong_ml = Some [(''signal'', 1), (''confidence'', 1)]"

definition high_regime :: market_regime where
  "high_regime = \<lparr> volatility = ''high'', trend = ''bullish'', volume = ''high'',
                   regime_confidence = 1 \<rparr>"

definition ranging_regime :: market_regime where
  "ranging_regime = \<lparr> volatility = ''medium'', trend = ''ranging'', volume = ''normal'',
                      regime_confidence = 1 / 4 \<rparr>"

definition ranging_weights_n :: weights where
  "ranging_weights_n = [(''rsi'', 65 / 498), (''macd'', 25 / 166), (''bollinger'', 10 / 83),
            (''ema_trend'', 65 / 498), (''volume'', 25 / 249), (''stochastic'', 8 / 83),
            (''atr'', 35 / 498), (''ml_prediction'', 50 / 249)]"

definition rsi_signals :: "(string \<times> fl) list" where
  "rsi_signals = [(''rsi'', Fin (2 / 3)), (''macd'', Fin 0), (''bollinger'', Fin 0),
                  (''ema_trend'', Fin 0), (''volume'', Fin 0), (''ml_prediction'', Fin 1)]"

definition rsi_buy_signal :: adaptive_signal where
  "rsi_buy_signal =
     \<lparr> action = ''BUY'', strength = Fin (16750 / 249),
       confidence = fmul (signal_agreement rsi_signals) (Fin (1 / 4)),
       regime = ranging_regime, components = rsi_signals,
       reasoning = [RsiOversold 10 30, MacdNotAvailable, BollingerNotAvailable,
                    EmaNotAvailable, VolumeNotAvailable, MlReason 1 1] \<rparr>"

definition threshold_manager :: risk_manager where
  "threshold_manager = (default_manager 10000)\<lparr>positions :=
     [(''BTC/USDT'', example_position\<lparr>unrealized_pnl := 2, highest_price := 102\<rparr>)]\<rparr>"

definition disabled_manager :: risk_manager where
  "disabled_manager = held_manager\<lparr>enable_trailing_stop := False\<rparr>"


definition zero_size_manager :: risk_manager where
  "zero_size_manager = (default_manager 10000)\<lparr>positions :=
     [(''BTC/USDT'', example_position\<lparr>size := 0, unrealized_pnl := 0\<rparr>)]\<rparr>"

section \<open>Properties\<close>

subsection \<open>Reading a DataFrame\<close>

lemma iloc_last_has_column: "iloc_last df c = Inr v \<Longrightarrow> has_column df c"
  by (auto simp: iloc_last_def has_column_def split: option.splits)

subsection \<open>Stop-loss and take-profit levels\<close>

text \<open>
  Claim C7. For entry price 50000, an ATR of 1500 and the long side,
  \<open>calculate_stop_loss\<close> gives 47500 (twice the ATR is 3000, clamped to 5% of the
  entry, 2500), and \<open>calculate_take_profit_levels\<close> on that stop gives exactly
  55000, 57500 and 62500: the entry plus 2, 3 and 5 times the clamped distance.
\<close>

theorem stop_and_targets_scenario:
  assumes "iloc_last df ''atr'' = Inr 1500"
  shows "calculate_stop_loss 50000 df ''long'' = 47500 \<and>
         calculate_take_profit_levels 50000 (calculate_stop_loss 50000 df ''long'') ''long'' 3
           = [55000, 57500, 62500]"
proof -
  have hc: "has_column df ''atr''" using assms by (rule iloc_last_has_column)
  have sl: "calculate_stop_loss 50000 df ''long'' = 47500"
    using assms hc by (simp add: calculate_stop_loss_def stop_loss_body_def)
  have tp: "calculate_take_profit_levels 50000 47500 ''long'' 3 = [55000, 57500, 62500]"
    by (simp add: calculate_take_profit_levels_def py_prefix_def)
  show ?thesis using sl tp by simp
qed

theorem stop_and_targets_scenario_witness:
  "iloc_last example_df ''atr'' = Inr 1500 \<and>
   calculate_stop_loss 50000 example_df ''long'' = 47500 \<and>
   calculate_take_profit_levels 50000 (calculate_stop_loss 50000 example_df ''long'') ''long'' 3
     = [55000, 57500, 62500]"
proof -
  have h: "iloc_last example_df ''atr'' = Inr 1500"
    by (simp add: iloc_last_def example_df_def)
  show ?thesis using h stop_and_targets_scenario [OF h] by blast
qed

text \<open>
  The other risk manager's \<open>calculate_dynamic_take_profit\<close> takes its distance
  from the ATR alone, without the clamp, so at the same input its targets are wider.
\<close>

lemma advanced_targets_scenario:
  "calculate_dynamic_stop_loss 50000 1500 2 0.02 0.05 = Inr 47500 \<and>
   calculate_dynamic_take_profit 50000 1500 2 True = Inr [56000, 59000, 65000]"
  by (simp add: calculate_dynamic_stop_loss_def calculate_dynamic_take_profit_def py_div_def)

subsection \<open>Kelly sizing\<close>

lemma clamp_finite: "\<exists>v. py_max (Fin lo) (py_min x (Fin hi)) = Fin v"
  by (cases x) (auto simp: py_max_def py_min_def fgt_def)

lemma clamp_reals: "py_max (Fin lo) (py_min (Fin x) (Fin hi)) = Fin (max lo (min x hi))"
  by (auto simp: py_max_def py_min_def fgt_def)

text \<open>
  Claim C8, as stated: for \<open>avg_loss = 0\<close>, \<open>win_rate = 0\<close> or \<open>win_rate = 1\<close>,
  \<open>calculate_kelly_position_size\<close> returns half the configured maximum. With a
  win rate of 1, an average win of 100 and an average loss of 50 the default
  manager (maximum 10) returns 10, not 5, with plain floats and with float64
  values alike: the guard tests only \<open>avg_loss == 0\<close> and \<open>win_rate == 0\<close>.
\<close>

theorem kelly_win_rate_one_counterexample:
  "calculate_kelly_position_size (default_manager 10000) PlainFloat 1 100 50 = Fin 10 \<and>
   calculate_kelly_position_size (default_manager 10000) Float64 1 100 50 = Fin 10 \<and>
   max_position_size_pct (default_manager 10000) / 2 = 5"
  by (simp add: calculate_kelly_position_size_def kelly_body_def kind_div_def clamp_reals
        default_manager_def risk_manager_init_def)

text \<open>
  Claim C8, amended. \<open>calculate_kelly_position_size\<close> returns exactly half the
  configured maximum when \<open>avg_loss = 0\<close> or \<open>win_rate = 0\<close>. For every input
  and either kind of float it returns a finite number; the only exception its
  body can raise is a ZeroDivisionError, and the handler answers it with the
  same half maximum, so no division error leaves the function. A win rate of 1
  is no fallback case: with a non-zero average win and loss the result is the
  Kelly fraction in percent clamped to [1, maximum].
\<close>

theorem kelly_fallbacks:
  "(avg_loss = 0 \<or> win_rate = 0 \<longrightarrow>
      calculate_kelly_position_size m k win_rate avg_win avg_loss
        = Fin (max_position_size_pct m / 2)) \<and>
   (\<forall>e. kelly_body m k win_rate avg_win avg_loss = Inl e \<longrightarrow>
      e = ZeroDivisionError \<and>
      calculate_kelly_position_size m k win_rate avg_win avg_loss
        = Fin (max_position_size_pct m / 2)) \<and>
   (\<exists>v. calculate_kelly_position_size m k win_rate avg_win avg_loss = Fin v) \<and>
   (win_rate = 1 \<and> avg_loss \<noteq> 0 \<and> avg_win \<noteq> 0 \<longrightarrow>
      calculate_kelly_position_size m k win_rate avg_win avg_loss
        = Fin (max 1 (min (kelly_fraction m * 100) (max_position_size_pct m))))"
proof (intro conjI impI allI)
  assume "avg_loss = 0 \<or> win_rate = 0"
  then show "calculate_kelly_position_size m k win_rate avg_win avg_loss
        = Fin (max_position_size_pct m / 2)"
    by (auto simp: calculate_kelly_position_size_def kelly_body_def)
next
  fix e assume "kelly_body m k win_rate avg_win avg_loss = Inl e"
  then show "e = ZeroDivisionError"
    by (auto simp: kelly_body_def kind_div_def Let_def split: if_splits)
next
  fix e assume "kelly_body m k win_rate avg_win avg_loss = Inl e"
  then show "calculate_kelly_position_size m k win_rate avg_win avg_loss
        = Fin (max_position_size_pct m / 2)"
    by (simp add: calculate_kelly_position_size_def)
next
  show "\<exists>v. calculate_kelly_position_size m k win_rate avg_win avg_loss = Fin v"
  proof (cases "kelly_body m k win_rate avg_win avg_loss")
    case (Inl e)
    then have "calculate_kelly_position_size m k win_rate avg_win avg_loss
                 = Fin (max_position_size_pct m / 2)"
      by (simp add: calculate_kelly_position_size_def)
    then show ?thesis by blast
  next
    case (Inr r)
    then have "r = Fin (max_position_size_pct m / 2) \<or>
               (\<exists>x. r = py_max (Fin 1) (py_min x (Fin (max_position_size_pct m))))"
      by (auto simp: kelly_body_def Let_def split: if_splits sum.splits)
    then have "\<exists>v. r = Fin v" using clamp_finite by auto
    then show ?thesis using Inr by (simp add: calculate_kelly_position_size_def)
  qed
next
  assume "win_rate = 1 \<and> avg_loss \<noteq> 0 \<and> avg_win \<noteq> 0"
  then show "calculate_kelly_position_size m k win_rate avg_win avg_loss
        = Fin (max 1 (min (kelly_fraction m * 100) (max_position_size_pct m)))"
    by (simp add: calculate_kelly_position_size_def kelly_body_def kind_div_def clamp_reals)
qed

theorem kelly_fallbacks_witness:
  "calculate_kelly_position_size (default_manager 10000) Float64 0 0 0 = Fin 5 \<and>
   kelly_body (default_manager 10000) PlainFloat (1 / 2) 0 50 = Inl ZeroDivisionError \<and>
   calculate_kelly_position_size (default_manager 10000) PlainFloat (1 / 2) 0 50 = Fin 5 \<and>
   calculate_kelly_position_size (default_manager 10000) Float64 1 100 50 = Fin 10"
proof -
  let ?m = "default_manager 10000"
  have cfg: "max_position_size_pct ?m = 10" "kelly_fraction ?m = 0.25"
    by (simp_all add: default_manager_def risk_manager_init_def)
  have a: "calculate_kelly_position_size ?m Float64 0 0 0 = Fin 5"
    using kelly_fallbacks [of 0 0 ?m Float64 0] cfg by simp
  have e: "kelly_body ?m PlainFloat (1 / 2) 0 50 = Inl ZeroDivisionError"
    by (simp add: kelly_body_def kind_div_def)
  have b: "calculate_kelly_position_size ?m PlainFloat (1 / 2) 0 50 = Fin 5"
    using kelly_fallbacks [of 50 "1 / 2" ?m PlainFloat 0] e cfg by simp
  have c: "calculate_kelly_position_size ?m Float64 1 100 50 = Fin 10"
    using kelly_fallbacks [of 50 1 ?m Float64 100] cfg by simp
  show ?thesis using a e b c by blast
qed

text \<open>
  Where the two kinds of float part: an average win of zero with a non-zero
  average loss. Plain floats raise and get half the maximum; with a float64
  the quotient is -inf and the clamp returns 1.
\<close>

lemma kelly_zero_average_win:
  assumes "avg_loss \<noteq> 0" "0 < win_rate" "win_rate < 1" "0 \<le> kelly_fraction m"
  shows "calculate_kelly_position_size m PlainFloat win_rate 0 avg_loss
           = Fin (max_position_size_pct m / 2)"
    and "calculate_kelly_position_size m Float64 win_rate 0 avg_loss = Fin 1"
proof -
  show "calculate_kelly_position_size m PlainFloat win_rate 0 avg_loss
           = Fin (max_position_size_pct m / 2)"
    using assms by (simp add: calculate_kelly_position_size_def kelly_body_def kind_div_def)
  have "np_div (Fin (- (1 - win_rate))) (Fin 0) = NInf"
    using assms by (simp add: inf_signed_def)
  then show "calculate_kelly_position_size m Float64 win_rate 0 avg_loss = Fin 1"
    using assms
    by (cases "0 < kelly_fraction m")
       (auto simp: calculate_kelly_position_size_def kelly_body_def kind_div_def inf_signed_def
          py_max_def py_min_def fgt_def)
qed

text \<open>
  The statistics the manager computes from its own closed positions have a win
  rate of 1 only with no loss at all, hence with an average loss of 0.
\<close>

lemma win_rate_one_has_no_losses:
  assumes "closed_positions m \<noteq> []" "fst (calculate_win_statistics m) = 1"
  shows "snd (snd (calculate_win_statistics m)) = 0"
proof -
  let ?cs = "closed_positions m"
  from assms have len: "length (filter (\<lambda>p. realized_pnl p > 0) ?cs) = length ?cs"
    by (simp add: calculate_win_statistics_def Let_def)
  have "\<forall>p \<in> set ?cs. realized_pnl p > 0"
    using len by (metis filter_id_conv length_filter_le filter_True length_filter_less not_less_iff_gr_or_eq)
  then have "filter (\<lambda>p. realized_pnl p < 0) ?cs = []"
    by (auto simp: filter_empty_conv)
  with assms(1) show ?thesis
    by (simp add: calculate_win_statistics_def Let_def)
qed

subsection \<open>The circuit breaker and the entry gate\<close>

lemma check_circuit_breaker_blocking:
  "breaker_blocking m now \<Longrightarrow> check_circuit_breaker m now now_act = (True, m)"
  by (simp add: check_circuit_breaker_def)

lemma check_circuit_breaker_positions:
  "positions (snd (check_circuit_breaker m now now_act)) = positions m"
  by (simp add: check_circuit_breaker_def activate_circuit_breaker_def Let_def)

lemma default_check_clear:
  "check_circuit_breaker ((default_manager 10000)\<lparr>positions := ps\<rparr>) now now_act
     = (False, (default_manager 10000)\<lparr>positions := ps\<rparr>)"
  by (simp add: check_circuit_breaker_def breaker_blocking_def default_manager_def
        risk_manager_init_def get_daily_pnl_pct_def get_current_drawdown_pct_def)

text \<open>
  Claim C1. When the daily P&L percentage is at or below minus the daily-loss
  limit (equality included), \<open>check_circuit_breaker\<close> returns True and leaves the
  breaker active. Unless the breaker was already active and unexpired (then the
  call returns at once and keeps the expiry it has), the call activates it with
  the reason "Daily loss limit reached" and the expiry \<open>now + 24 hours\<close>, \<open>now\<close>
  being the clock read at activation, and every \<open>can_open_position\<close> up to that
  expiry is refused. In any state whatever, a \<open>can_open_position\<close> made while
  the breaker is active and unexpired returns (False, "Circuit breaker active")
  and changes nothing.
\<close>

theorem daily_loss_trips_breaker:
  assumes "get_daily_pnl_pct m \<le> - max_daily_loss_pct m"
  shows "fst (check_circuit_breaker m now now_act) = True \<and>
         circuit_breaker_active (snd (check_circuit_breaker m now now_act)) \<and>
         (\<not> breaker_blocking m now \<longrightarrow>
            circuit_breaker_until (snd (check_circuit_breaker m now now_act))
              = Some (now_act + timedelta_hours 24) \<and>
            log_lines (snd (check_circuit_breaker m now now_act))
              = log_lines m @ (if circuit_breaker_active m then [BreakerDeactivated] else [])
                  @ [BreakerActivated ''Daily loss limit reached'' (now_act + timedelta_hours 24)]
                  @ map (\<lambda>kv. ClosingPosition (fst kv)) (positions m) \<and>
            (\<forall>t t' s. t \<le> now_act + timedelta_hours 24 \<longrightarrow>
               can_open_position (snd (check_circuit_breaker m now now_act)) s t t'
                 = ((False, ''Circuit breaker active''), snd (check_circuit_breaker m now now_act)))) \<and>
         (\<forall>m' t t' s. breaker_blocking m' t \<longrightarrow>
            can_open_position m' s t t' = ((False, ''Circuit breaker active''), m'))"
proof -
  have blocked: "\<And>m' t t' s. breaker_blocking m' t \<Longrightarrow>
      can_open_position m' s t t' = ((False, ''Circuit breaker active''), m')"
    by (simp add: can_open_position_def check_circuit_breaker_blocking)
  have d: "get_daily_pnl_pct (m\<lparr> circuit_breaker_active := False, circuit_breaker_until := None,
                           log_lines := log_lines m @ [BreakerDeactivated] \<rparr>) = get_daily_pnl_pct m"
    by (simp add: get_daily_pnl_pct_def)
  show ?thesis
  proof (cases "breaker_blocking m now")
    case True
    then show ?thesis using blocked
      by (simp add: check_circuit_breaker_def breaker_blocking_def)
  next
    case False
    let ?m' = "snd (check_circuit_breaker m now now_act)"
    have r: "check_circuit_breaker m now now_act =
       (True, activate_circuit_breaker
          (if circuit_breaker_active m
           then m\<lparr> circuit_breaker_active := False, circuit_breaker_until := None,
                   log_lines := log_lines m @ [BreakerDeactivated] \<rparr>
           else m) ''Daily loss limit reached'' 24 now_act)"
      using False assms d by (simp add: check_circuit_breaker_def Let_def)
    have u: "circuit_breaker_until ?m' = Some (now_act + timedelta_hours 24)"
      and a: "circuit_breaker_active ?m'"
      by (simp_all add: r activate_circuit_breaker_def)
    have l: "log_lines ?m' = log_lines m @ (if circuit_breaker_active m then [BreakerDeactivated] else [])
                  @ [BreakerActivated ''Daily loss limit reached'' (now_act + timedelta_hours 24)]
                  @ map (\<lambda>kv. ClosingPosition (fst kv)) (positions m)"
      by (simp add: r activate_circuit_breaker_def)
    have b: "\<And>t. t \<le> now_act + timedelta_hours 24 \<Longrightarrow> breaker_blocking ?m' t"
      using u a by (simp add: breaker_blocking_def)
    show ?thesis using r u a l b blocked by simp
  qed
qed

theorem daily_loss_trips_breaker_witness:
  "get_daily_pnl_pct losing_manager = - 5 \<and> max_daily_loss_pct losing_manager = 5 \<and>
   \<not> breaker_blocking losing_manager 0 \<and>
   fst (check_circuit_breaker losing_manager 0 7) = True \<and>
   circuit_breaker_active (snd (check_circuit_breaker losing_manager 0 7)) \<and>
   circuit_breaker_until (snd (check_circuit_breaker losing_manager 0 7)) = Some 86400000007 \<and>
   log_lines (snd (check_circuit_breaker losing_manager 0 7))
     = [BreakerActivated ''Daily loss limit reached'' 86400000007] \<and>
   can_open_position (snd (check_circuit_breaker losing_manager 0 7)) ''BTC/USDT'' 1000 1000
     = ((False, ''Circuit breaker active''), snd (check_circuit_breaker losing_manager 0 7))"
proof -
  have p: "get_daily_pnl_pct losing_manager = - 5"
    by (simp add: losing_manager_def default_manager_def risk_manager_init_def get_daily_pnl_pct_def)
  have l: "max_daily_loss_pct losing_manager = 5"
    by (simp add: losing_manager_def default_manager_def risk_manager_init_def)
  have h: "get_daily_pnl_pct losing_manager \<le> - max_daily_loss_pct losing_manager"
    using p l by simp
  have nb: "\<not> breaker_blocking losing_manager 0"
    by (simp add: breaker_blocking_def losing_manager_def default_manager_def risk_manager_init_def)
  have st: "circuit_breaker_active losing_manager = False" "log_lines losing_manager = []"
    "positions losing_manager = []"
    by (simp_all add: losing_manager_def default_manager_def risk_manager_init_def)
  have t: "(1000::int) \<le> 7 + timedelta_hours 24" "(7::int) + timedelta_hours 24 = 86400000007"
    by (simp_all add: timedelta_hours_def)
  show ?thesis
    using daily_loss_trips_breaker [OF h, of 0 7] p l nb st t by simp
qed

text \<open>
  Claim C10. \<open>can_open_position\<close> returns False with a reason whenever a position
  is already open for the requested symbol or five or more positions are open.
  When the circuit-breaker check passes (and with it the daily-loss and drawdown
  gates, which test the same conditions), the reason is the one of the position
  gate that fired, the held symbol first.
\<close>

theorem can_open_position_refuses_held_symbol_and_full_book:
  assumes "map_of (positions m) smb \<noteq> None \<or> length (positions m) \<ge> 5"
  shows "fst (fst (can_open_position m smb now now_act)) = False \<and>
         snd (fst (can_open_position m smb now now_act)) \<in>
           {''Circuit breaker active'', ''Daily loss limit reached'', ''Maximum drawdown reached'',
            ''Position already open for this symbol'', ''Maximum 5 positions already open''} \<and>
         (\<not> fst (check_circuit_breaker m now now_act) \<longrightarrow>
            snd (fst (can_open_position m smb now now_act)) =
              (if map_of (positions m) smb \<noteq> None
               then ''Position already open for this symbol''
               else ''Maximum 5 positions already open''))"
proof -
  obtain tripped m1 where c: "check_circuit_breaker m now now_act = (tripped, m1)"
    by (cases "check_circuit_breaker m now now_act")
  have p: "positions m1 = positions m"
    using check_circuit_breaker_positions [of m now now_act] c by simp
  have g: "\<not> tripped \<Longrightarrow>
             \<not> get_daily_pnl_pct m1 \<le> - max_daily_loss_pct m1 \<and>
             \<not> get_current_drawdown_pct m1 \<ge> max_drawdown_pct m1"
    using c by (auto simp: check_circuit_breaker_def Let_def split: if_splits)
  show ?thesis
  proof (cases tripped)
    case True
    then show ?thesis using c by (simp add: can_open_position_def)
  next
    case False
    with g have "\<not> get_daily_pnl_pct m1 \<le> - max_daily_loss_pct m1"
      "\<not> get_current_drawdown_pct m1 \<ge> max_drawdown_pct m1" by simp_all
    with False c p assms show ?thesis
      by (auto simp: can_open_position_def)
  qed
qed

theorem can_open_position_refuses_held_symbol_and_full_book_witness:
  "can_open_position held_manager ''BTC/USDT'' 0 0
     = ((False, ''Position already open for this symbol''), held_manager) \<and>
   can_open_position full_manager ''DOT/USDT'' 0 0
     = ((False, ''Maximum 5 positions already open''), full_manager)"
proof -
  have h1: "map_of (positions held_manager) ''BTC/USDT'' \<noteq> None \<or> length (positions held_manager) \<ge> 5"
    by (simp add: held_manager_def)
  have h2: "map_of (positions full_manager) ''DOT/USDT'' \<noteq> None \<or> length (positions full_manager) \<ge> 5"
    by (simp add: full_manager_def)
  have c1: "check_circuit_breaker held_manager 0 0 = (False, held_manager)"
    unfolding held_manager_def by (rule default_check_clear)
  have c2: "check_circuit_breaker full_manager 0 0 = (False, full_manager)"
    unfolding full_manager_def by (rule default_check_clear)
  have n: "map_of (positions full_manager) ''DOT/USDT'' = None"
    by (simp add: full_manager_def)
  have s1: "snd (can_open_position held_manager ''BTC/USDT'' 0 0) = held_manager"
    using c1 by (simp add: can_open_position_def)
  have s2: "snd (can_open_position full_manager ''DOT/USDT'' 0 0) = full_manager"
    using c2 by (simp add: can_open_position_def)
  have r1: "fst (can_open_position held_manager ''BTC/USDT'' 0 0)
              = (False, ''Position already open for this symbol'')"
    using can_open_position_refuses_held_symbol_and_full_book [OF h1, of 0 0] c1 h1
    by (simp add: prod_eq_iff held_manager_def)
  have r2: "fst (can_open_position full_manager ''DOT/USDT'' 0 0)
              = (False, ''Maximum 5 positions already open'')"
    using can_open_position_refuses_held_symbol_and_full_book [OF h2, of 0 0] c2 n
    by (simp add: prod_eq_iff)
  show ?thesis using r1 r2 s1 s2 by (simp add: prod_eq_iff)
qed

subsection \<open>The trailing stop\<close>

lemma set_position_same:
  "map_of (positions m) smb = Some p \<Longrightarrow> set_position m smb p = m"
  by (simp add: set_position_def update_triv)

lemma update_trailing_stop_step:
  assumes "map_of (positions m) smb = Some p"
  shows "\<exists>p'. map_of (positions (snd (update_trailing_stop m k smb price))) smb = Some p' \<and>
           side p' = side p \<and>
           (side p = ''long'' \<longrightarrow> stop_loss p' = stop_loss p \<or> flt (stop_loss p) (stop_loss p')) \<and>
           (side p \<noteq> ''long'' \<longrightarrow> stop_loss p' = stop_loss p \<or> flt (stop_loss p') (stop_loss p)) \<and>
           (\<not> trailing_stop_active p' \<longrightarrow> stop_loss p' = stop_loss p)"
  using assms
  by (auto simp: update_trailing_stop_def set_position_def update_conv' fgt_def Let_def
           split: sum.splits if_splits)

lemma update_trailing_stop_disabled:
  "\<not> enable_trailing_stop m \<Longrightarrow> update_trailing_stop m k smb price = (Inr None, m)"
  by (simp add: update_trailing_stop_def split: option.splits)

lemma update_trailing_stop_below_threshold:
  assumes "map_of (positions m) smb = Some p" "enable_trailing_stop m"
    "\<not> trailing_stop_active p" "get_pnl_pct k p = Inr q" "\<not> fge q (Fin 2)"
  shows "update_trailing_stop m k smb price = (Inr None, m)"
  using assms by (simp add: update_trailing_stop_def set_position_same)

lemma update_trailing_stop_raises:
  assumes "map_of (positions m) smb = Some p" "enable_trailing_stop m"
    "\<not> trailing_stop_active p" "get_pnl_pct k p = Inl e"
  shows "update_trailing_stop m k smb price = (Inl e, m)"
  using assms by (simp add: update_trailing_stop_def)

lemma update_trailing_stop_trails:
  assumes "map_of (positions m) smb = Some p" "enable_trailing_stop m"
    "trailing_stop_active p \<or> (\<exists>q. get_pnl_pct k p = Inr q \<and> fge q (Fin 2))"
  shows "map_of (positions (snd (update_trailing_stop m k smb price))) smb
           = Some (p\<lparr>trailing_stop_active := True, stop_loss := trailed_stop m p\<rparr>)"
  using assms
  by (auto simp: update_trailing_stop_def set_position_def update_conv' trailed_stop_def Let_def)

lemma update_pnl_keeps: "side (update_pnl p x) = side p" "stop_loss (update_pnl p x) = stop_loss p"
  by (simp_all add: update_pnl_def Let_def)

lemma price_update_step:
  assumes "map_of (positions m) smb = Some p"
  shows "\<exists>p'. map_of (positions (price_update m smb price)) smb = Some p' \<and>
           side p' = side p \<and>
           (side p = ''long'' \<longrightarrow> stop_loss p' = stop_loss p \<or> flt (stop_loss p) (stop_loss p')) \<and>
           (side p \<noteq> ''long'' \<longrightarrow> stop_loss p' = stop_loss p \<or> flt (stop_loss p') (stop_loss p))"
proof -
  let ?m1 = "set_position m smb (update_pnl p price)"
  have "map_of (positions ?m1) smb = Some (update_pnl p price)"
    by (simp add: set_position_def update_conv')
  from update_trailing_stop_step [OF this, of Float64 price]
  show ?thesis using assms by (auto simp: price_update_def update_pnl_keeps)
qed

lemma stop_history_long:
  "map_of (positions m) smb = Some p \<Longrightarrow> side p = ''long'' \<Longrightarrow>
     never_lower (stop_loss p # stop_history m smb prices)"
proof (induction prices arbitrary: m p)
  case Nil
  then show ?case by simp
next
  case (Cons x xs)
  from price_update_step [OF Cons.prems(1), of x] obtain p' where
    p': "map_of (positions (price_update m smb x)) smb = Some p'" "side p' = side p"
        "stop_loss p' = stop_loss p \<or> flt (stop_loss p) (stop_loss p')"
    using Cons.prems(2) by auto
  have "never_lower (stop_loss p' # stop_history (price_update m smb x) smb xs)"
    using Cons.IH [OF p'(1)] p'(2) Cons.prems(2) by simp
  then show ?case using p' by auto
qed

lemma stop_history_short:
  "map_of (positions m) smb = Some p \<Longrightarrow> side p \<noteq> ''long'' \<Longrightarrow>
     never_higher (stop_loss p # stop_history m smb prices)"
proof (induction prices arbitrary: m p)
  case Nil
  then show ?case by simp
next
  case (Cons x xs)
  from price_update_step [OF Cons.prems(1), of x] obtain p' where
    p': "map_of (positions (price_update m smb x)) smb = Some p'" "side p' = side p"
        "stop_loss p' = stop_loss p \<or> flt (stop_loss p') (stop_loss p)"
    using Cons.prems(2) by auto
  have "never_higher (stop_loss p' # stop_history (price_update m smb x) smb xs)"
    using Cons.IH [OF p'(1)] p'(2) Cons.prems(2) by simp
  then show ?case using p' by auto
qed

lemma held_cfg:
  "enable_trailing_stop ((default_manager c)\<lparr>positions := ps\<rparr>)"
  "trailing_stop_pct ((default_manager c)\<lparr>positions := ps\<rparr>) = 1"
  "positions ((default_manager c)\<lparr>positions := ps\<rparr>) = ps"
  by (simp_all add: default_manager_def risk_manager_init_def)

text \<open>
  Claim C6, as stated, says that the stop is unchanged by any call made while the
  trailing stop is inactive. A call that finds the trailing stop inactive and
  the profit at 2% or more switches it on and goes on to move the stop in the
  same call: a long position entered at 100 with a stop at 98, a high of 103
  and 3% of profit comes back with its stop at 101.97.
\<close>

theorem trailing_stop_inactive_call_counterexample:
  "\<not> trailing_stop_active example_position \<and>
   stop_loss example_position = Fin 98 \<and>
   fst (update_trailing_stop held_manager Float64 ''BTC/USDT'' 103) = Inr (Some (Fin (10197 / 100))) \<and>
   map_option stop_loss
     (map_of (positions (snd (update_trailing_stop held_manager Float64 ''BTC/USDT'' 103))) ''BTC/USDT'')
     = Some (Fin (10197 / 100))"
  by (simp add: update_trailing_stop_def held_manager_def example_position_def default_manager_def
        risk_manager_init_def get_pnl_pct_def kind_div_def fge_def fle_def fgt_def set_position_def
        Let_def)

text \<open>
  Claim C6, amended. For every open position and every call of
  \<open>update_trailing_stop\<close>, a long position's stop after the call is its previous
  value or a greater one, and the stop of any other (short) position is its
  previous value or a smaller one; along every sequence of price updates the
  stops of a long position never go down and those of a short one never go up.
  The stop is unchanged by every call that leaves the trailing stop inactive,
  and these are the calls that change nothing at all: every call while
  \<open>enable_trailing_stop\<close> is off, and every call that finds the trailing stop
  inactive and the profit below 2% (or that fails in \<open>get_pnl_pct\<close>). A call
  that finds the trailing stop active, or inactive with a profit of 2% or
  more, leaves it active and the stop at the value of the trailing rule, in
  that same call.
\<close>

theorem trailing_stop_moves_one_way:
  assumes "map_of (positions m) smb = Some p"
  shows "(\<exists>p'. map_of (positions (snd (update_trailing_stop m k smb price))) smb = Some p' \<and>
           (side p = ''long'' \<longrightarrow> stop_loss p' = stop_loss p \<or> flt (stop_loss p) (stop_loss p')) \<and>
           (side p \<noteq> ''long'' \<longrightarrow> stop_loss p' = stop_loss p \<or> flt (stop_loss p') (stop_loss p)) \<and>
           (\<not> trailing_stop_active p' \<longrightarrow> stop_loss p' = stop_loss p)) \<and>
         (\<not> enable_trailing_stop m \<longrightarrow> update_trailing_stop m k smb price = (Inr None, m)) \<and>
         (\<forall>q. enable_trailing_stop m \<and> \<not> trailing_stop_active p \<and>
               get_pnl_pct k p = Inr q \<and> \<not> fge q (Fin 2) \<longrightarrow>
               update_trailing_stop m k smb price = (Inr None, m)) \<and>
         (\<forall>e. enable_trailing_stop m \<and> \<not> trailing_stop_active p \<and> get_pnl_pct k p = Inl e \<longrightarrow>
               update_trailing_stop m k smb price = (Inl e, m)) \<and>
         (enable_trailing_stop m \<and>
            (trailing_stop_active p \<or> (\<exists>q. get_pnl_pct k p = Inr q \<and> fge q (Fin 2))) \<longrightarrow>
            map_of (positions (snd (update_trailing_stop m k smb price))) smb
              = Some (p\<lparr>trailing_stop_active := True, stop_loss := trailed_stop m p\<rparr>)) \<and>
         (side p = ''long'' \<longrightarrow> never_lower (stop_loss p # stop_history m smb prices)) \<and>
         (side p \<noteq> ''long'' \<longrightarrow> never_higher (stop_loss p # stop_history m smb prices))"
proof (intro conjI impI allI)
  show "\<exists>p'. map_of (positions (snd (update_trailing_stop m k smb price))) smb = Some p' \<and>
           (side p = ''long'' \<longrightarrow> stop_loss p' = stop_loss p \<or> flt (stop_loss p) (stop_loss p')) \<and>
           (side p \<noteq> ''long'' \<longrightarrow> stop_loss p' = stop_loss p \<or> flt (stop_loss p') (stop_loss p)) \<and>
           (\<not> trailing_stop_active p' \<longrightarrow> stop_loss p' = stop_loss p)"
    using update_trailing_stop_step [OF assms, of k price] by blast
next
  assume "\<not> enable_trailing_stop m"
  then show "update_trailing_stop m k smb price = (Inr None, m)"
    by (rule update_trailing_stop_disabled)
next
  fix q assume "enable_trailing_stop m \<and> \<not> trailing_stop_active p \<and>
               get_pnl_pct k p = Inr q \<and> \<not> fge q (Fin 2)"
  then show "update_trailing_stop m k smb price = (Inr None, m)"
    using update_trailing_stop_below_threshold [OF assms] by blast
next
  fix e assume "enable_trailing_stop m \<and> \<not> trailing_stop_active p \<and> get_pnl_pct k p = Inl e"
  then show "update_trailing_stop m k smb price = (Inl e, m)"
    using update_trailing_stop_raises [OF assms] by blast
next
  assume "enable_trailing_stop m \<and>
            (trailing_stop_active p \<or> (\<exists>q. get_pnl_pct k p = Inr q \<and> fge q (Fin 2)))"
  then show "map_of (positions (snd (update_trailing_stop m k smb price))) smb
              = Some (p\<lparr>trailing_stop_active := True, stop_loss := trailed_stop m p\<rparr>)"
    using update_trailing_stop_trails [OF assms] by blast
next
  assume "side p = ''long''"
  then show "never_lower (stop_loss p # stop_history m smb prices)"
    using stop_history_long [OF assms] by blast
next
  assume "side p \<noteq> ''long''"
  then show "never_higher (stop_loss p # stop_history m smb prices)"
    using stop_history_short [OF assms] by blast
qed

theorem trailing_stop_moves_one_way_witness:
  "map_of (positions held_manager) ''BTC/USDT'' = Some example_position \<and>
   side example_position = ''long'' \<and> stop_loss example_position = Fin 98 \<and>
   stop_history held_manager ''BTC/USDT'' [103, 104, 101]
     = [Fin (10197 / 100), Fin (10296 / 100), Fin (10296 / 100)] \<and>
   never_lower (stop_loss example_position # stop_history held_manager ''BTC/USDT'' [103, 104, 101]) \<and>
   side short_position \<noteq> ''long'' \<and>
   stop_history short_manager ''BTC/USDT'' [96] = [Fin (9696 / 100)] \<and>
   never_higher (stop_loss short_position # stop_history short_manager ''BTC/USDT'' [96]) \<and>
   update_trailing_stop disabled_manager Float64 ''BTC/USDT'' 103 = (Inr None, disabled_manager) \<and>
   get_pnl_pct Float64 (example_position\<lparr>unrealized_pnl := 1\<rparr>) = Inr (Fin 1) \<and>
   update_trailing_stop flat_manager Float64 ''BTC/USDT'' 101 = (Inr None, flat_manager) \<and>
   get_pnl_pct Float64 (example_position\<lparr>unrealized_pnl := 2, highest_price := 102\<rparr>) = Inr (Fin 2) \<and>
   map_option (\<lambda>q. (trailing_stop_active q, stop_loss q))
     (map_of (positions (snd (update_trailing_stop threshold_manager Float64 ''BTC/USDT'' 102)))
        ''BTC/USDT'') = Some (True, Fin (10098 / 100)) \<and>
   update_trailing_stop zero_size_manager PlainFloat ''BTC/USDT'' 100
     = (Inl ZeroDivisionError, zero_size_manager) \<and>
   update_trailing_stop zero_size_manager Float64 ''BTC/USDT'' 100 = (Inr None, zero_size_manager)"
proof -
  let ?flat = "example_position\<lparr>unrealized_pnl := 1\<rparr>"
  let ?thr = "example_position\<lparr>unrealized_pnl := 2, highest_price := 102\<rparr>"
  let ?zero = "example_position\<lparr>size := 0, unrealized_pnl := 0\<rparr>"
  have h1: "map_of (positions held_manager) ''BTC/USDT'' = Some example_position"
    by (simp add: held_manager_def)
  have h2: "map_of (positions short_manager) ''BTC/USDT'' = Some short_position"
    by (simp add: short_manager_def)
  have h3: "map_of (positions flat_manager) ''BTC/USDT'' = Some ?flat"
    by (simp add: flat_manager_def)
  have h4: "map_of (positions threshold_manager) ''BTC/USDT'' = Some ?thr"
    by (simp add: threshold_manager_def)
  have h5: "map_of (positions disabled_manager) ''BTC/USDT'' = Some example_position"
    by (simp add: disabled_manager_def held_manager_def)
  have h6: "map_of (positions zero_size_manager) ''BTC/USDT'' = Some ?zero"
    by (simp add: zero_size_manager_def)
  have en: "enable_trailing_stop flat_manager" "enable_trailing_stop threshold_manager"
    "enable_trailing_stop zero_size_manager" "\<not> enable_trailing_stop disabled_manager"
    "trailing_stop_pct threshold_manager = 1"
    by (simp_all add: flat_manager_def threshold_manager_def zero_size_manager_def
          disabled_manager_def held_cfg)
  have s1: "side example_position = ''long''" "stop_loss example_position = Fin 98"
    "\<not> trailing_stop_active example_position"
    by (simp_all add: example_position_def)
  have s2: "side short_position \<noteq> ''long''"
    by (simp add: short_position_def)
  have g3: "get_pnl_pct Float64 ?flat = Inr (Fin 1)"
    by (simp add: get_pnl_pct_def kind_div_def example_position_def)
  have g4: "get_pnl_pct Float64 ?thr = Inr (Fin 2)"
    by (simp add: get_pnl_pct_def kind_div_def example_position_def)
  have g6: "get_pnl_pct PlainFloat ?zero = Inl ZeroDivisionError"
    "get_pnl_pct Float64 ?zero = Inr NaN"
    by (simp_all add: get_pnl_pct_def kind_div_def example_position_def inf_signed_def)
  have f: "\<not> fge (Fin 1) (Fin 2)" "fge (Fin 2) (Fin 2)" "\<not> fge NaN (Fin 2)"
    by (simp_all add: fge_def fle_def)
  have e1: "stop_history held_manager ''BTC/USDT'' [103, 104, 101]
     = [Fin (10197 / 100), Fin (10296 / 100), Fin (10296 / 100)]"
    by (simp add: held_manager_def held_cfg price_update_def update_trailing_stop_def
          set_position_def update_pnl_def get_pnl_pct_def kind_div_def fge_def fle_def fgt_def
          Let_def example_position_def)
  have e2: "stop_history short_manager ''BTC/USDT'' [96] = [Fin (9696 / 100)]"
    by (simp add: short_manager_def short_position_def held_cfg price_update_def
          update_trailing_stop_def set_position_def update_pnl_def get_pnl_pct_def kind_div_def
          fge_def fle_def fgt_def Let_def example_position_def)
  have t4: "trailed_stop threshold_manager ?thr = Fin (10098 / 100)"
    using en(5) by (simp add: trailed_stop_def example_position_def fgt_def Let_def)
  have n1: "never_lower (stop_loss example_position # stop_history held_manager ''BTC/USDT'' [103, 104, 101])"
    using trailing_stop_moves_one_way [OF h1, of Float64 103 "[103, 104, 101]"] s1 by blast
  have n2: "never_higher (stop_loss short_position # stop_history short_manager ''BTC/USDT'' [96])"
    using trailing_stop_moves_one_way [OF h2, of Float64 96 "[96]"] s2 by blast
  have n3: "update_trailing_stop flat_manager Float64 ''BTC/USDT'' 101 = (Inr None, flat_manager)"
    using trailing_stop_moves_one_way [OF h3, of Float64 101 "[]"] en(1) g3 f(1) s1(3) by simp
  have n4: "map_of (positions (snd (update_trailing_stop threshold_manager Float64 ''BTC/USDT'' 102)))
              ''BTC/USDT'' = Some (?thr\<lparr>trailing_stop_active := True,
                                         stop_loss := trailed_stop threshold_manager ?thr\<rparr>)"
    using trailing_stop_moves_one_way [OF h4, of Float64 102 "[]"] en(2) g4 f(2) by blast
  have n5: "update_trailing_stop disabled_manager Float64 ''BTC/USDT'' 103 = (Inr None, disabled_manager)"
    using trailing_stop_moves_one_way [OF h5, of Float64 103 "[]"] en(4) by blast
  have n6: "update_trailing_stop zero_size_manager PlainFloat ''BTC/USDT'' 100
              = (Inl ZeroDivisionError, zero_size_manager)"
    using trailing_stop_moves_one_way [OF h6, of PlainFloat 100 "[]"] en(3) g6(1) s1(3) by simp
  have n7: "update_trailing_stop zero_size_manager Float64 ''BTC/USDT'' 100 = (Inr None, zero_size_manager)"
    using trailing_stop_moves_one_way [OF h6, of Float64 100 "[]"] en(3) g6(2) f(3) s1(3) by simp
  have n4': "map_option (\<lambda>q. (trailing_stop_active q, stop_loss q))
     (map_of (positions (snd (update_trailing_stop threshold_manager Float64 ''BTC/USDT'' 102)))
        ''BTC/USDT'') = Some (True, Fin (10098 / 100))"
    by (simp add: n4 t4)
  show ?thesis using h1 s1 s2 e1 e2 n1 n2 n3 n4' n5 n6 n7 g3 g4 by blast
qed

subsection \<open>Dynamic position sizing\<close>





text \<open>
  When the price is readable and not zero, the one failure the body can have is
  the division of the Kelly percentage by a \<open>max_position_size_pct\<close> of zero,
  and the handler's fallback, that percentage of the capital over the price, is
  then zero.
\<close>

lemma dynamic_position_size_failure_is_zero:
  assumes "iloc_last df ''close'' = Inr price" "price \<noteq> 0"
      and "dynamic_position_size_body m smb df signal_strength signal_confidence = Inl err"
  shows "err = ZeroDivisionError \<and> max_position_size_pct m = 0 \<and>
         calculate_dynamic_position_size m smb df signal_strength signal_confidence = Inr (Fin 0)"
proof -
  have z: "err = ZeroDivisionError \<and> max_position_size_pct m = 0"
    using assms(1,3)
    by (auto simp: dynamic_position_size_body_def Let_def
             split: sum.splits if_splits prod.splits)
  then have "calculate_fixed_position_size m = 0"
    by (simp add: calculate_fixed_position_size_def)
  then show ?thesis using z assms
    by (simp add: calculate_dynamic_position_size_def)
qed

text \<open>
  Claim C5 says that no exception escapes \<open>calculate_dynamic_position_size\<close>,
  whatever the DataFrame. The handler of its \<open>try\<close> divides by
  \<open>df['close'].iloc[-1]\<close>, read again outside the \<open>try\<close>: on a frame with no rows
  the IndexError of the body is caught and raised anew by the handler, and on a
  frame without a close column the same happens with the KeyError.
\<close>

theorem dynamic_position_size_unreadable_price:
  "calculate_dynamic_position_size (default_manager 10000) ''BTC/USDT'' [(''close'', []), (''atr'', [])] 50 0.5
     = Inl IndexError \<and>
   calculate_dynamic_position_size (default_manager 10000) ''BTC/USDT'' [(''volume'', [12])] 50 0.5
     = Inl KeyError"
  by (simp add: calculate_dynamic_position_size_def dynamic_position_size_body_def iloc_last_def)

subsection \<open>Regime weights\<close>

lemma usable_sum_pos:
  assumes "usable_weights ws"
  shows "0 < sum_list (map snd ws)"
proof -
  have nn: "list_all (\<lambda>kv. 0 \<le> snd kv) xs \<Longrightarrow> 0 \<le> sum_list (map snd xs)" for xs :: weights
    by (induction xs) auto
  have "list_all (\<lambda>kv. 0 \<le> snd kv) xs \<Longrightarrow> list_ex (\<lambda>kv. 0 < snd kv) xs
          \<Longrightarrow> 0 < sum_list (map snd xs)" for xs :: weights
  proof (induction xs)
    case Nil
    then show ?case by simp
  next
    case (Cons a xs)
    then show ?case using nn [of xs] by (cases "0 < snd a") (auto simp: add_pos_nonneg add_nonneg_pos)
  qed
  then show ?thesis using assms by (simp add: usable_weights_def)
qed

lemma usable_map_scale:
  assumes "usable_weights ws" "\<And>kv. kv \<in> set ws \<Longrightarrow> 0 < c kv"
  shows "usable_weights (map (\<lambda>kv. (fst kv, snd kv * c kv)) ws)"
  using assms
  by (auto simp: usable_weights_def list_all_iff list_ex_iff intro!: mult_nonneg_nonneg mult_pos_pos
           dest: less_imp_le)

lemma scale_weight_ok:
  assumes "k \<in> set (map fst ws)" "0 < c" "usable_weights ws"
  shows "\<exists>ws'. scale_weight k c ws = Inr ws' \<and> usable_weights ws' \<and> map fst ws' = map fst ws"
proof -
  from assms(1) obtain v where v: "map_of ws k = Some v"
    by (metis map_of_eq_None_iff not_Some_eq set_map)
  let ?ws' = "map (\<lambda>kv. if fst kv = k then (fst kv, snd kv * c) else kv) ws"
  have eq: "?ws' = map (\<lambda>kv. (fst kv, snd kv * (if fst kv = k then c else 1))) ws"
    by (rule map_cong) auto
  have "usable_weights ?ws'"
    unfolding eq using assms(2,3) by (intro usable_map_scale) auto
  moreover have "map fst ?ws' = map fst ws" by (induction ws) auto
  ultimately show ?thesis using v by (simp add: scale_weight_def)
qed

lemma bind_weights_ok:
  assumes "\<exists>w. r = Inr w \<and> usable_weights w \<and> map fst w = ks"
      and "\<And>w. usable_weights w \<Longrightarrow> map fst w = ks \<Longrightarrow>
             \<exists>w'. f w = Inr w' \<and> usable_weights w' \<and> map fst w' = ks"
  shows "\<exists>w'. bind_err r f = Inr w' \<and> usable_weights w' \<and> map fst w' = ks"
  using assms by (auto simp: bind_err_def)

lemma scale_weight_keeps:
  assumes "k \<in> set ks" "0 < c" "usable_weights w" "map fst w = ks"
  shows "\<exists>w'. scale_weight k c w = Inr w' \<and> usable_weights w' \<and> map fst w' = ks"
  using scale_weight_ok [of k w c] assms by auto

lemma volatility_rule_ok:
  assumes "{''macd'', ''rsi'', ''bollinger''} \<subseteq> set ks" "usable_weights ws" "map fst ws = ks"
  shows "\<exists>w'. volatility_rule r ws = Inr w' \<and> usable_weights w' \<and> map fst w' = ks"
proof -
  have k: "''macd'' \<in> set ks" "''rsi'' \<in> set ks" "''bollinger'' \<in> set ks"
    using assms(1) by auto
  consider "volatility r = ''high''" | "volatility r \<noteq> ''high''" "volatility r = ''low''"
    | "volatility r \<noteq> ''high''" "volatility r \<noteq> ''low''" by blast
  then show ?thesis
  proof cases
    case 1
    then have "volatility_rule r ws =
        bind_err (scale_weight ''macd'' 1.3 ws) (\<lambda>w1.
        bind_err (scale_weight ''rsi'' 0.8 w1) (\<lambda>w2. scale_weight ''bollinger'' 1.2 w2))"
      by (simp add: volatility_rule_def)
    then show ?thesis using k assms(2,3)
      by (auto intro!: bind_weights_ok scale_weight_keeps)
  next
    case 2
    then have "volatility_rule r ws =
        bind_err (scale_weight ''rsi'' 1.3 ws) (\<lambda>w1.
        bind_err (scale_weight ''bollinger'' 1.4 w1) (\<lambda>w2. scale_weight ''macd'' 0.8 w2))"
      by (simp add: volatility_rule_def)
    then show ?thesis using k assms(2,3)
      by (auto intro!: bind_weights_ok scale_weight_keeps)
  next
    case 3
    then show ?thesis using assms(2,3) by (simp add: volatility_rule_def)
  qed
qed

lemma trend_rule_ok:
  assumes "{''ema_trend'', ''macd'', ''rsi'', ''stochastic''} \<subseteq> set ks"
    "usable_weights ws" "map fst ws = ks"
  shows "\<exists>w'. trend_rule r ws = Inr w' \<and> usable_weights w' \<and> map fst w' = ks"
proof -
  have k: "''ema_trend'' \<in> set ks" "''macd'' \<in> set ks" "''rsi'' \<in> set ks" "''stochastic'' \<in> set ks"
    using assms(1) by auto
  consider "trend r \<in> set [''bullish'', ''bearish'']"
    | "trend r \<notin> set [''bullish'', ''bearish'']" "trend r = ''ranging''"
    | "trend r \<notin> set [''bullish'', ''bearish'']" "trend r \<noteq> ''ranging''" by blast
  then show ?thesis
  proof cases
    case 1
    then have "trend_rule r ws =
        bind_err (scale_weight ''ema_trend'' 1.4 ws) (\<lambda>w1. scale_weight ''macd'' 1.2 w1)"
      by (simp only: trend_rule_def if_True)
    then show ?thesis using k assms(2,3)
      by (auto intro!: bind_weights_ok scale_weight_keeps)
  next
    case 2
    then have "trend_rule r ws =
        bind_err (scale_weight ''rsi'' 1.3 ws) (\<lambda>w1. scale_weight ''stochastic'' 1.2 w1)"
      by (simp add: trend_rule_def)
    then show ?thesis using k assms(2,3)
      by (auto intro!: bind_weights_ok scale_weight_keeps)
  next
    case 3
    then have "trend_rule r ws = Inr ws"
      by (simp add: trend_rule_def)
    then show ?thesis using assms(2,3) by simp
  qed
qed

lemma volume_rule_ok:
  assumes "''volume'' \<in> set ks" "usable_weights ws" "map fst ws = ks"
  shows "\<exists>w'. volume_rule r ws = Inr w' \<and> usable_weights w' \<and> map fst w' = ks"
proof (cases "volume r = ''high''")
  case True
  have step: "\<exists>w'. Inr (map (\<lambda>kv. if fst kv \<noteq> ''volume'' then (fst kv, snd kv * 1.1) else kv) w)
                 = (Inr w' :: py_error + weights) \<and> usable_weights w' \<and> map fst w' = ks"
    if "usable_weights w" "map fst w = ks" for w :: weights
  proof -
    let ?w' = "map (\<lambda>kv. if fst kv \<noteq> ''volume'' then (fst kv, snd kv * 1.1) else kv) w"
    have eq: "?w' = map (\<lambda>kv. (fst kv, snd kv * (if fst kv \<noteq> ''volume'' then 1.1 else 1))) w"
      by (rule map_cong) auto
    have "usable_weights ?w'"
      unfolding eq using that(1) by (intro usable_map_scale) auto
    moreover have "map fst ?w' = map fst w" by (induction w) auto
    ultimately show ?thesis using that(2) by simp
  qed
  from True have "volume_rule r ws =
      bind_err (scale_weight ''volume'' 1.5 ws)
        (\<lambda>w1. Inr (map (\<lambda>kv. if fst kv \<noteq> ''volume'' then (fst kv, snd kv * 1.1) else kv) w1))"
    by (simp add: volume_rule_def)
  then show ?thesis using assms step
    by (auto intro!: bind_weights_ok scale_weight_keeps)
next
  case False
  then show ?thesis using assms(2,3) by (simp add: volume_rule_def)
qed

lemma regime_rules_ok:
  assumes "{''macd'', ''rsi'', ''bollinger'', ''ema_trend'', ''stochastic'', ''volume''} \<subseteq> set ks"
    "usable_weights ws" "map fst ws = ks"
  shows "\<exists>w'. regime_rules r ws = Inr w' \<and> usable_weights w' \<and> map fst w' = ks"
  unfolding regime_rules_def
proof (intro bind_weights_ok)
  show "\<exists>w. volatility_rule r ws = Inr w \<and> usable_weights w \<and> map fst w = ks"
    using assms by (intro volatility_rule_ok) auto
  show "\<exists>w. trend_rule r w1 = Inr w \<and> usable_weights w \<and> map fst w = ks"
    if "usable_weights w1" "map fst w1 = ks" for w1
    using assms(1) that by (intro trend_rule_ok) auto
  show "\<exists>w'. volume_rule r w2 = Inr w' \<and> usable_weights w' \<and> map fst w' = ks"
    if "usable_weights w2" "map fst w2 = ks" for w2
    using assms(1) that by (intro volume_rule_ok) auto
qed

lemma normalize_weights_ok:
  assumes "usable_weights ws"
  shows "normalize_weights ws = Inr (map (\<lambda>kv. (fst kv, snd kv / sum_list (map snd ws))) ws) \<and>
         list_all (\<lambda>kv. 0 \<le> snd kv) (map (\<lambda>kv. (fst kv, snd kv / sum_list (map snd ws))) ws) \<and>
         sum_list (map snd (map (\<lambda>kv. (fst kv, snd kv / sum_list (map snd ws))) ws)) = 1"
proof -
  let ?t = "sum_list (map snd ws)"
  have t: "0 < ?t" using assms by (rule usable_sum_pos)
  have n: "normalize_weights ws = Inr (map (\<lambda>kv. (fst kv, snd kv / ?t)) ws)"
    using t by (simp add: normalize_weights_def Let_def)
  have nn: "list_all (\<lambda>kv. 0 \<le> snd kv) (map (\<lambda>kv. (fst kv, snd kv / ?t)) ws)"
    using assms t by (auto simp: usable_weights_def list_all_iff)
  have "sum_list (map snd (map (\<lambda>kv. (fst kv, snd kv / ?t)) ws))
          = sum_list (map (\<lambda>kv. snd kv * inverse ?t) ws)"
    by (simp add: comp_def divide_inverse)
  also have "\<dots> = ?t * inverse ?t"
    by (simp add: sum_list_mult_const)
  also have "\<dots> = 1" using t by simp
  finally show ?thesis using n nn by simp
qed

lemma initial_base_weights_usable:
  "usable_weights (initial_base_weights ml)"
  "map fst (initial_base_weights ml) =
     [''rsi'', ''macd'', ''bollinger'', ''ema_trend'', ''volume'', ''stochastic'', ''atr'',
      ''ml_prediction'']"
  by (simp_all add: usable_weights_def initial_base_weights_def)

text \<open>
  Claim C3. For an engine with the base weights of \<open>__init__\<close> (with or without
  the ML component) and every market regime, whatever its three category
  strings, \<open>adjust_weights_for_regime\<close> succeeds; the new \<open>current_weights\<close> are
  the weights left by all the regime rules, each divided once by their sum; no
  entry is negative and the entries sum to 1 (so within 1e-9 of 1).
\<close>

theorem regime_weights_normalised:
  assumes "base_weights e = initial_base_weights ml"
  shows "\<exists>ws. regime_rules r (base_weights e) = Inr ws \<and>
           adjust_weights_for_regime e r
             = Inr (e\<lparr>current_weights := map (\<lambda>kv. (fst kv, snd kv / sum_list (map snd ws))) ws\<rparr>) \<and>
           list_all (\<lambda>kv. 0 \<le> snd kv) (map (\<lambda>kv. (fst kv, snd kv / sum_list (map snd ws))) ws) \<and>
           sum_list (map snd (map (\<lambda>kv. (fst kv, snd kv / sum_list (map snd ws))) ws)) = 1 \<and>
           \<bar>sum_list (map snd (map (\<lambda>kv. (fst kv, snd kv / sum_list (map snd ws))) ws)) - 1\<bar>
              \<le> 1 / 10 ^ 9"
proof -
  let ?ks = "[''rsi'', ''macd'', ''bollinger'', ''ema_trend'', ''volume'', ''stochastic'', ''atr'',
      ''ml_prediction'']"
  have "\<exists>w'. regime_rules r (base_weights e) = Inr w' \<and> usable_weights w' \<and> map fst w' = ?ks"
    using assms initial_base_weights_usable [of ml] by (intro regime_rules_ok) auto
  then obtain ws where ws: "regime_rules r (base_weights e) = Inr ws" "usable_weights ws" by blast
  from normalize_weights_ok [OF ws(2)] ws(1) show ?thesis
    by (auto simp: adjust_weights_for_regime_def bind_err_def)
qed

theorem regime_weights_normalised_witness:
  "base_weights default_engine = initial_base_weights True \<and>
   (\<exists>ws. regime_rules high_regime (base_weights default_engine) = Inr ws \<and>
      adjust_weights_for_regime default_engine high_regime
        = Inr (default_engine\<lparr>current_weights :=
                 map (\<lambda>kv. (fst kv, snd kv / sum_list (map snd ws))) ws\<rparr>) \<and>
      list_all (\<lambda>kv. 0 \<le> snd kv) (map (\<lambda>kv. (fst kv, snd kv / sum_list (map snd ws))) ws) \<and>
      sum_list (map snd (map (\<lambda>kv. (fst kv, snd kv / sum_list (map snd ws))) ws)) = 1)"
proof -
  have h: "base_weights default_engine = initial_base_weights True"
    by (simp add: default_engine_def engine_init_def)
  show ?thesis
    using h regime_weights_normalised [OF h, of high_regime] by blast
qed

subsection \<open>The ensemble signal\<close>

lemma fge_fle_exclusive: "fge s (Fin 65) \<Longrightarrow> \<not> fle s (Fin 35)"
  by (cases s) (auto simp: fge_def fle_def)

lemma decide_action_cases:
  "(decide_action s = ''BUY'' \<longleftrightarrow> fge s (Fin 65)) \<and>
   (decide_action s = ''SELL'' \<longleftrightarrow> fle s (Fin 35)) \<and>
   (decide_action s = ''HOLD'' \<longleftrightarrow> \<not> fge s (Fin 65) \<and> \<not> fle s (Fin 35))"
  using fge_fle_exclusive [of s] by (auto simp: decide_action_def)

lemma ensemble_body_result:
  assumes "ensemble_body e df ml r = Inr s"
  shows "action s = decide_action (strength s) \<and>
         strength s = fmul (fadd (weighted_ensemble_score (current_weights e) (components s)) (Fin 1))
                           (Fin 50)"
  using assms
  by (auto simp: ensemble_body_def bind_err_def Let_def split: sum.splits prod.splits)

lemma rsi_df_regime:
  "regime_body rsi_df = Inr \<lparr> volatility = ''medium'', trend = ''ranging'', volume = ''normal'',
                               regime_confidence = 1 / 4 \<rparr>"
  by (simp add: regime_body_def detect_volatility_def detect_trend_def detect_volume_def
        available_indicators_def has_column_def rsi_df_def bind_err_def column_def
        rolling_mean_last_def iloc_last_def series_std_def tail_def pct_change_def
        bucket_def fgt_def fsub_def)

lemma ranging_weights:
  "regime_rules \<lparr> volatility = ''medium'', trend = ''ranging'', volume = ''normal'',
                  regime_confidence = 1 / 4 \<rparr> (initial_base_weights True)
     = Inr [(''rsi'', 13 / 10), (''macd'', 3 / 2), (''bollinger'', 6 / 5), (''ema_trend'', 13 / 10),
            (''volume'', 1), (''stochastic'', 24 / 25), (''atr'', 7 / 10), (''ml_prediction'', 2)]"
  by (simp add: regime_rules_def volatility_rule_def trend_rule_def volume_rule_def
        scale_weight_def bind_err_def initial_base_weights_def)

lemma ranging_normalised:
  "normalize_weights [(''rsi'', 13 / 10), (''macd'', 3 / 2), (''bollinger'', 6 / 5), (''ema_trend'', 13 / 10),
            (''volume'', 1), (''stochastic'', 24 / 25), (''atr'', 7 / 10), (''ml_prediction'', 2)]
     = Inr [(''rsi'', 65 / 498), (''macd'', 25 / 166), (''bollinger'', 10 / 83),
            (''ema_trend'', 65 / 498), (''volume'', 25 / 249), (''stochastic'', 8 / 83),
            (''atr'', 35 / 498), (''ml_prediction'', 50 / 249)]"
  by (simp add: normalize_weights_def)

lemma rsi_df_detect:
  "detect_market_regime default_engine rsi_df = (ranging_regime, remember_regime default_engine ranging_regime)"
  by (simp add: detect_market_regime_def rsi_df_regime ranging_regime_def)

lemma rsi_df_adjust:
  "adjust_weights_for_regime (remember_regime default_engine ranging_regime) ranging_regime
     = Inr ((remember_regime default_engine ranging_regime)\<lparr>current_weights := ranging_weights_n\<rparr>)"
proof -
  have b: "base_weights (remember_regime default_engine ranging_regime) = initial_base_weights True"
    by (simp add: remember_regime_def default_engine_def engine_init_def Let_def)
  have rr: "regime_rules ranging_regime (initial_base_weights True)
     = Inr [(''rsi'', 13 / 10), (''macd'', 3 / 2), (''bollinger'', 6 / 5), (''ema_trend'', 13 / 10),
            (''volume'', 1), (''stochastic'', 24 / 25), (''atr'', 7 / 10), (''ml_prediction'', 2)]"
    using ranging_weights by (simp add: ranging_regime_def)
  show ?thesis
    by (simp add: adjust_weights_for_regime_def b rr bind_err_def ranging_normalised
          ranging_weights_n_def)
qed

lemma rsi_score:
  "weighted_ensemble_score ranging_weights_n rsi_signals = Fin (86 / 249)"
  by (simp add: weighted_ensemble_score_def ranging_weights_n_def rsi_signals_def dict_get_def)

lemma rsi_df_body:
  "ensemble_body ((remember_regime default_engine ranging_regime)\<lparr>current_weights := ranging_weights_n\<rparr>)
      rsi_df strong_ml ranging_regime
     = Inr \<lparr> action = ''BUY'', strength = Fin (16750 / 249),
             confidence = fmul (signal_agreement rsi_signals) (Fin (1 / 4)),
             regime = ranging_regime, components = rsi_signals,
             reasoning = [RsiOversold 10 30, MacdNotAvailable, BollingerNotAvailable,
                          EmaNotAvailable, VolumeNotAvailable, MlReason 1 1] \<rparr>"
proof -
  let ?e = "(remember_regime default_engine ranging_regime)\<lparr>current_weights := ranging_weights_n\<rparr>"
  have cfg: "volatility_adjustment ?e" "base_rsi_oversold ?e = 30" "base_rsi_overbought ?e = 70"
    "ml_enabled ?e" "current_weights ?e = ranging_weights_n"
    by (simp_all add: remember_regime_def default_engine_def engine_init_def Let_def)
  have th: "adjust_thresholds_for_volatility ?e ranging_regime = (30, 70)"
    using cfg by (simp add: adjust_thresholds_for_volatility_def ranging_regime_def)
  have c1: "calculate_rsi_signal rsi_df 30 70 = Inr (Fin (2 / 3), RsiOversold 10 30)"
    by (simp add: calculate_rsi_signal_def has_column_def rsi_df_def iloc_last_def bind_err_def)
  have c2: "calculate_macd_signal rsi_df = Inr (Fin 0, MacdNotAvailable)"
    by (simp add: calculate_macd_signal_def has_column_def rsi_df_def)
  have c3: "calculate_bollinger_signal rsi_df = Inr (Fin 0, BollingerNotAvailable)"
    by (simp add: calculate_bollinger_signal_def has_column_def rsi_df_def)
  have c4: "calculate_ema_trend_signal rsi_df = Inr (Fin 0, EmaNotAvailable)"
    by (simp add: calculate_ema_trend_signal_def has_column_def rsi_df_def)
  have c5: "calculate_volume_signal rsi_df = Inr (Fin 0, VolumeNotAvailable)"
    by (simp add: calculate_volume_signal_def has_column_def rsi_df_def)
  have c6: "ml_component ?e strong_ml = (Fin 1, [MlReason 1 1])"
    using cfg by (simp add: ml_component_def strong_ml_def dict_get_def)
  have sg: "[(''rsi'', Fin (2 / 3)), (''macd'', Fin 0), (''bollinger'', Fin 0),
             (''ema_trend'', Fin 0), (''volume'', Fin 0), (''ml_prediction'', Fin 1)] = rsi_signals"
    by (simp add: rsi_signals_def)
  have rc: "regime_confidence ranging_regime = 1 / 4" by (simp add: ranging_regime_def)
  show ?thesis
    unfolding ensemble_body_def th
    by (simp add: c1 c2 c3 c4 c5 c6 bind_err_def sg cfg rsi_score rc decide_action_def
          fge_def fle_def Let_def)
qed

text \<open>
  Claim C4. When the body of \<open>generate_ensemble_signal\<close> completes without an
  exception, the signal it built is the one returned; its strength is the
  weighted score plus 1, times 50; its action is BUY exactly when the strength
  is at least 65, SELL exactly when it is at most 35, and HOLD otherwise.
\<close>

theorem ensemble_action_thresholds:
  assumes "fst (ensemble_attempt e df ml) = Inr s"
  shows "fst (generate_ensemble_signal e df ml) = s \<and>
         strength s = fmul (fadd (weighted_ensemble_score
                                    (current_weights (snd (generate_ensemble_signal e df ml)))
                                    (components s)) (Fin 1)) (Fin 50) \<and>
         (action s = ''BUY'' \<longleftrightarrow> fge (strength s) (Fin 65)) \<and>
         (action s = ''SELL'' \<longleftrightarrow> fle (strength s) (Fin 35)) \<and>
         (action s = ''HOLD'' \<longleftrightarrow> \<not> fge (strength s) (Fin 65) \<and> \<not> fle (strength s) (Fin 35))"
proof -
  obtain e' where at: "ensemble_attempt e df ml = (Inr s, e')"
    using assms by (cases "ensemble_attempt e df ml") auto
  then have g: "generate_ensemble_signal e df ml = (s, e')"
    by (simp add: generate_ensemble_signal_def)
  obtain r where b: "ensemble_body e' df ml r = Inr s"
    using at by (auto simp: ensemble_attempt_def split: prod.splits sum.splits)
  from ensemble_body_result [OF b] decide_action_cases [of "strength s"] g
  show ?thesis by simp
qed

theorem ensemble_action_thresholds_witness:
  "fst (ensemble_attempt default_engine rsi_df strong_ml) = Inr rsi_buy_signal \<and>
   fst (generate_ensemble_signal default_engine rsi_df strong_ml) = rsi_buy_signal \<and>
   action rsi_buy_signal = ''BUY'' \<and> strength rsi_buy_signal = Fin (16750 / 249) \<and>
   fge (strength rsi_buy_signal) (Fin 65)"
proof -
  have h: "fst (ensemble_attempt default_engine rsi_df strong_ml) = Inr rsi_buy_signal"
    by (simp add: ensemble_attempt_def rsi_df_detect rsi_df_adjust rsi_df_body rsi_buy_signal_def)
  have a: "action rsi_buy_signal = ''BUY''" "strength rsi_buy_signal = Fin (16750 / 249)"
    by (simp_all add: rsi_buy_signal_def)
  show ?thesis
    using h a ensemble_action_thresholds [OF h] by simp
qed

text \<open>
  A failure inside the body of \<open>generate_ensemble_signal\<close> never leaves the
  function: it comes back as HOLD with strength 50, confidence 0 and the error
  as the only reasoning. A frame whose RSI column has no rows is such an input.
\<close>

lemma ensemble_failure_signal:
  "fst (ensemble_attempt e df ml) = Inl err \<Longrightarrow>
     fst (generate_ensemble_signal e df ml) = error_signal err \<and>
     action (error_signal err) = ''HOLD'' \<and> strength (error_signal err) = Fin 50 \<and>
     confidence (error_signal err) = Fin 0 \<and> reasoning (error_signal err) = [ErrorReason err]"
  by (cases "ensemble_attempt e df ml")
     (auto simp: generate_ensemble_signal_def error_signal_def)

lemma adjust_weights_succeeds:
  assumes "base_weights e = initial_base_weights ml"
  shows "\<exists>e'. adjust_weights_for_regime e r = Inr e'"
proof -
  have "\<exists>w'. regime_rules r (base_weights e) = Inr w' \<and> usable_weights w' \<and>
          map fst w' = map fst (initial_base_weights ml)"
    using assms initial_base_weights_usable [of ml] by (intro regime_rules_ok) auto
  then obtain ws where ws: "regime_rules r (base_weights e) = Inr ws" "usable_weights ws" by blast
  from normalize_weights_ok [OF ws(2)] ws(1) show ?thesis
    by (auto simp: adjust_weights_for_regime_def bind_err_def)
qed

lemma ensemble_failure_example:
  "fst (generate_ensemble_signal default_engine [(''rsi'', [])] None) = error_signal IndexError"
proof -
  let ?r = "\<lparr> volatility = ''medium'', trend = ''ranging'', volume = ''normal'',
              regime_confidence = 0.5 \<rparr>"
  have de: "detect_market_regime default_engine [(''rsi'', [])] = (?r, default_engine)"
    by (simp add: detect_market_regime_def regime_body_def detect_volatility_def bind_err_def
          has_column_def column_def)
  have "base_weights default_engine = initial_base_weights True"
    by (simp add: default_engine_def engine_init_def)
  then obtain e2 where ad: "adjust_weights_for_regime default_engine ?r = Inr e2"
    using adjust_weights_succeeds by blast
  have c: "calculate_rsi_signal [(''rsi'', [])] lo hi = Inl IndexError" for lo hi
    by (simp add: calculate_rsi_signal_def has_column_def iloc_last_def bind_err_def)
  have b: "ensemble_body e2 [(''rsi'', [])] None ?r = Inl IndexError"
    by (cases "adjust_thresholds_for_volatility e2 ?r") (simp add: ensemble_body_def c bind_err_def)
  have "fst (ensemble_attempt default_engine [(''rsi'', [])] None) = Inl IndexError"
    by (simp only: ensemble_attempt_def de ad b prod.case sum.case fst_conv)
  then show ?thesis using ensemble_failure_signal by blast
qed

subsection \<open>Independence from the engine's accumulated state\<close>

lemma detect_market_regime_pure:
  "fst (detect_market_regime e1 df) = fst (detect_market_regime e2 df)"
  by (simp add: detect_market_regime_def split: sum.splits)

lemma detect_market_regime_config:
  "same_config (snd (detect_market_regime e df)) e"
  by (simp add: detect_market_regime_def same_config_def remember_regime_def Let_def split: sum.splits)

lemma adjust_weights_same_config:
  assumes "same_config e1 e2"
  shows "(case adjust_weights_for_regime e1 r of
            Inl err \<Rightarrow> adjust_weights_for_regime e2 r = Inl err
          | Inr e1' \<Rightarrow> (\<exists>e2'. adjust_weights_for_regime e2 r = Inr e2' \<and>
                          same_config e1' e2' \<and> current_weights e1' = current_weights e2' \<and>
                          same_config e1' e1))"
  using assms
  by (auto simp: adjust_weights_for_regime_def bind_err_def same_config_def split: sum.splits)

lemma ensemble_body_same_config:
  assumes "same_config e1 e2" "current_weights e1 = current_weights e2"
  shows "ensemble_body e1 df ml r = ensemble_body e2 df ml r"
proof -
  have t: "adjust_thresholds_for_volatility e1 r = adjust_thresholds_for_volatility e2 r"
    using assms(1) by (simp add: same_config_def adjust_thresholds_for_volatility_def)
  have m: "ml_component e1 ml = ml_component e2 ml"
    using assms(1) by (cases ml) (simp_all add: same_config_def ml_component_def)
  show ?thesis
    unfolding ensemble_body_def t m assms(2) by (rule refl)
qed

lemma same_config_sym: "same_config a b \<Longrightarrow> same_config b a"
  by (auto simp: same_config_def)

lemma same_config_trans: "same_config a b \<Longrightarrow> same_config b c \<Longrightarrow> same_config a c"
  by (auto simp: same_config_def)

lemma ensemble_attempt_same_config:
  assumes "same_config e1 e2"
  shows "fst (ensemble_attempt e1 df ml) = fst (ensemble_attempt e2 df ml) \<and>
         same_config (snd (ensemble_attempt e1 df ml)) e1"
proof -
  obtain r a where d1: "detect_market_regime e1 df = (r, a)" by (cases "detect_market_regime e1 df")
  obtain r' b where d2: "detect_market_regime e2 df = (r', b)" by (cases "detect_market_regime e2 df")
  have rr: "r' = r" using detect_market_regime_pure [of e2 df e1] d1 d2 by simp
  have ca: "same_config a e1" using detect_market_regime_config [of e1 df] d1 by simp
  have cb: "same_config b e2" using detect_market_regime_config [of e2 df] d2 by simp
  have ab: "same_config a b"
    using ca cb assms by (meson same_config_sym same_config_trans)
  show ?thesis
  proof (cases "adjust_weights_for_regime a r")
    case (Inl err)
    then have "adjust_weights_for_regime b r = Inl err"
      using adjust_weights_same_config [OF ab, of r] by simp
    with Inl d1 d2 rr ca show ?thesis by (simp add: ensemble_attempt_def)
  next
    case (Inr a')
    then obtain b' where b': "adjust_weights_for_regime b r = Inr b'" "same_config a' b'"
      "current_weights a' = current_weights b'" "same_config a' a"
      using adjust_weights_same_config [OF ab, of r] by auto
    have "ensemble_body a' df ml r = ensemble_body b' df ml r"
      using b'(2,3) by (rule ensemble_body_same_config)
    moreover have "same_config a' e1" using b'(4) ca by (rule same_config_trans)
    ultimately show ?thesis using Inr b'(1) d1 d2 rr by (simp add: ensemble_attempt_def)
  qed
qed

lemma generate_same_config:
  assumes "same_config e1 e2"
  shows "fst (generate_ensemble_signal e1 df ml) = fst (generate_ensemble_signal e2 df ml)"
    and "same_config (snd (generate_ensemble_signal e1 df ml)) e1"
proof -
  from ensemble_attempt_same_config [OF assms, of df ml]
  have a: "fst (ensemble_attempt e1 df ml) = fst (ensemble_attempt e2 df ml)"
    and c: "same_config (snd (ensemble_attempt e1 df ml)) e1" by simp_all
  show "fst (generate_ensemble_signal e1 df ml) = fst (generate_ensemble_signal e2 df ml)"
    using a by (cases "ensemble_attempt e1 df ml"; cases "ensemble_attempt e2 df ml")
               (auto simp: generate_ensemble_signal_def split: sum.splits)
  show "same_config (snd (generate_ensemble_signal e1 df ml)) e1"
    using c by (cases "ensemble_attempt e1 df ml")
               (auto simp: generate_ensemble_signal_def split: sum.splits)
qed

lemma after_calls_config: "same_config (after_calls e calls) e"
proof (induction calls arbitrary: e)
  case Nil
  then show ?case by (simp add: same_config_def)
next
  case (Cons c calls)
  obtain df ml where c: "c = (df, ml)" by (cases c)
  have "same_config (after_calls (snd (generate_ensemble_signal e df ml)) calls)
          (snd (generate_ensemble_signal e df ml))" by (rule Cons.IH)
  moreover have "same_config (snd (generate_ensemble_signal e df ml)) e"
    by (rule generate_same_config(2)) (simp add: same_config_def)
  ultimately show ?case using c by (simp add: same_config_trans)
qed

text \<open>
  Claim C9. The signal returned by \<open>generate_ensemble_signal\<close> for a DataFrame
  and an ML prediction is the same after any series of earlier calls as before
  them, and the same whatever the engine's current weights and regime history
  are: it is recomputed from the inputs and from what \<open>__init__\<close> fixed.
\<close>

theorem ensemble_signal_ignores_engine_state:
  "fst (generate_ensemble_signal (after_calls e calls) df ml) = fst (generate_ensemble_signal e df ml) \<and>
   fst (generate_ensemble_signal (e\<lparr>current_weights := w, regime_history := h\<rparr>) df ml)
     = fst (generate_ensemble_signal e df ml)"
proof
  show "fst (generate_ensemble_signal (after_calls e calls) df ml) = fst (generate_ensemble_signal e df ml)"
    by (rule generate_same_config(1)) (rule after_calls_config)
  show "fst (generate_ensemble_signal (e\<lparr>current_weights := w, regime_history := h\<rparr>) df ml)
     = fst (generate_ensemble_signal e df ml)"
    by (rule generate_same_config(1)) (simp add: same_config_def)
qed

end
